theory Spec2Isabelle
  imports Main "HOL-Library.Word" "HOL-Library.Sublist"
begin

section \<open>Data model of cmd/influxd/node.go\<close>

text \<open>
  The file wires a cluster node together: it opens the broker with its raft log, opens the
  data node, joins or initializes each of them, and closes everything again. The raft log,
  the broker, the data node, the listeners and the auxiliary servers are collaborators from
  other packages. Every call into them that can fail, and every read of a value the
  control flow depends on, is recorded with its answer in a trace; constructors and setters
  are not. The answer is taken from an environment that sees the whole history of the run
  so far: a collaborator may therefore answer the same call differently at different
  moments.

  \<open>openListener\<close> and the functions that only store a new listener or the admin server in
  the node (\<open>openAPIListener\<close>, \<open>openClusterListener\<close>, \<open>openAdminServer\<close>) serve on
  goroutines of their own; nothing below depends on them, and a node is taken with whatever
  handles it holds.
\<close>

type_synonym handle = nat
  \<comment> \<open>identity of an object behind a Go pointer\<close>

record url =
  Scheme :: string
  Host :: string
  \<comment> \<open>the fields of \<open>url.URL\<close> that this file sets; the others stay at their zero value\<close>

datatype go_error =
    ErrInitialized            \<comment> \<open>the sentinel \<open>raft.ErrInitialized\<close>\<close>
  | ErrDataNodeNotFound       \<comment> \<open>the sentinel \<open>influxdb.ErrDataNodeNotFound\<close>\<close>
  | NilDereference            \<comment> \<open>runtime panic: method call on a nil interface\<close>
  | OtherError string         \<comment> \<open>any other error value, with its message\<close>

record listener =
  lid :: handle
  laddr :: string
  \<comment> \<open>\<open>laddr\<close> is what \<open>Addr().String()\<close> gives: the address the listener is bound to\<close>

record config =
  BrokerDir :: string
  DataDir :: string

record node =
  Broker :: "handle option"
  DataNode :: "handle option"
  raftLog :: "handle option"
  config :: config
  hostname :: string
  adminServer :: "handle option"
  clusterListener :: "listener option"
  apiListener :: "listener option"
  GraphiteServers :: "handle list"
  OpenTSDBServer :: "handle option"

record handler =
  hBroker :: "handle option"
  hLog :: "handle option"

text \<open>Calls into the collaborators that return a Go \<open>error\<close> (\<open>None\<close> is \<open>nil\<close>).\<close>

datatype call =
    BrokerOpen handle string          \<comment> \<open>\<open>b.Open(path)\<close>\<close>
  | RaftLogOpen handle string         \<comment> \<open>\<open>l.Open(filepath.Join(path, "raft"))\<close>, with \<open>path\<close>\<close>
  | RaftInitialize handle             \<comment> \<open>\<open>l.Initialize()\<close>\<close>
  | RaftJoin handle url               \<comment> \<open>\<open>l.Join(u)\<close>\<close>
  | ClientOpen string                 \<comment> \<open>\<open>c.Open(...)\<close> of the messaging client, with the data directory\<close>
  | ServerOpen handle string          \<comment> \<open>\<open>n.Open(dir, c)\<close>\<close>
  | ServerInitialize handle url       \<comment> \<open>\<open>n.Initialize(u)\<close>\<close>
  | ServerJoin handle url url         \<comment> \<open>\<open>n.Join(&u, &joinURL)\<close>\<close>
  | ListenerClose listener            \<comment> \<open>\<open>Close()\<close> of a \<open>net.Listener\<close>\<close>
  | AdminServerClose handle
  | GraphiteClose handle
  | OpenTSDBClose handle
  | ServerClose handle
  | RaftLogClose handle
  | BrokerClose handle

datatype arg = AStr string | AUrl url | AErr go_error | AInt "64 word"

datatype event =
    Ext call "go_error option"   \<comment> \<open>a call into a collaborator and the error it returned\<close>
  | Printf string "arg list"     \<comment> \<open>\<open>log.Printf\<close>: format and arguments\<close>
  | Fatalf string "arg list"     \<comment> \<open>\<open>log.Fatalf\<close>: the line written before the process exits\<close>
  | Sleep nat                    \<comment> \<open>\<open>time.Sleep\<close>, in seconds\<close>
  | GotLastLogIndexTerm handle "64 word" "64 word"
                                 \<comment> \<open>\<open>l.LastLogIndexTerm()\<close> and the index and term it gave\<close>
  | GotServerID handle "64 word" \<comment> \<open>\<open>n.ID()\<close> and the identity it gave\<close>
  | GotClientURLs "url list"     \<comment> \<open>\<open>c.URLs()\<close> of the messaging client\<close>
  | GotBrokerURL handle url      \<comment> \<open>\<open>b.Broker.URL()\<close>\<close>

type_synonym trace = "event list"

record env =
  respond :: "trace \<Rightarrow> call \<Rightarrow> go_error option"
  LastLogIndexTerm :: "trace \<Rightarrow> handle \<Rightarrow> 64 word \<times> 64 word"
  ServerID :: "trace \<Rightarrow> handle \<Rightarrow> 64 word"
  ClientURLs :: "trace \<Rightarrow> url list"
  BrokerURL :: "trace \<Rightarrow> handle \<Rightarrow> url"

text \<open>
  How a function of the file ends: it returns, or \<open>log.Fatalf\<close> ends the process, or it
  panics.
\<close>

datatype outcome = Returned | Fatal | Panicked go_error

section \<open>The log layer: joinLog\<close>

text \<open>
  \<open>joinLog\<close> ranges over the broker URLs. The trace grows by the \<open>Join\<close> call and by the
  line logged for it; \<open>ErrInitialized\<close> returns without a log line. After the loop comes
  \<open>log.Fatalf\<close>.
\<close>

fun joinLog :: "env \<Rightarrow> handle \<Rightarrow> url list \<Rightarrow> trace \<Rightarrow> outcome \<times> trace" where
  "joinLog env l [] tr =
     (Fatal, tr @ [Fatalf ''join: failed to connect raft log to any specified server'' []])"
| "joinLog env l (u # brokerURLs) tr =
     (let err = respond env tr (RaftJoin l u);
          tr1 = tr @ [Ext (RaftJoin l u) err]
      in case err of
           Some ErrInitialized \<Rightarrow> (Returned, tr1)
         | Some e \<Rightarrow>
             joinLog env l brokerURLs
               (tr1 @ [Printf ''join: failed to connect to raft cluster: %s: %s'' [AUrl u, AErr e]])
         | None \<Rightarrow> (Returned, tr1 @ [Printf ''join: connected raft log to %s'' [AUrl u]]))"

section \<open>ClusterURL\<close>

text \<open>
  \<open>net.SplitHostPort\<close> and \<open>net.JoinHostPort\<close> belong to Go's standard library. They are
  parameters of the model: \<open>SplitHostPort\<close> gives host and port or an error, \<open>JoinHostPort\<close>
  a string.
\<close>

record netpkg =
  SplitHostPort :: "string \<Rightarrow> go_error + string \<times> string"
  JoinHostPort :: "string \<Rightarrow> string \<Rightarrow> string"

text \<open>\<open>ClusterAddr\<close> calls \<open>Addr()\<close> on the listener; on a nil listener that panics.\<close>

definition ClusterAddr :: "node \<Rightarrow> go_error + string" where
  "ClusterAddr s = (case clusterListener s of None \<Rightarrow> Inl NilDereference | Some l \<Rightarrow> Inr (laddr l))"

text \<open>\<open>Inl\<close> is the value \<open>ClusterURL\<close> panics with.\<close>

definition ClusterURL :: "netpkg \<Rightarrow> node \<Rightarrow> go_error + url" where
  "ClusterURL net s =
     (case ClusterAddr s of
        Inl e \<Rightarrow> Inl e
      | Inr a \<Rightarrow>
          (case SplitHostPort net a of
             Inl e \<Rightarrow> Inl e
           | Inr (_, p) \<Rightarrow>
               (let h = JoinHostPort net (hostname s) p
                in Inr \<lparr>Scheme = ''http'', Host = h\<rparr>)))"

section \<open>The log layer: openBroker\<close>

text \<open>
  \<open>b\<close> and \<open>l\<close> are the objects that \<open>influxdb.NewBroker()\<close> and \<open>raft.NewLog()\<close> return.
  Copying configuration values onto them (intervals, sizes, tracing, the clock) and
  attaching the state machine change no control flow and make no call that can fail, so
  they are not part of the state. \<open>h\<close> is the HTTP handler the broker and the log are
  attached to.
\<close>

definition openBroker ::
  "netpkg \<Rightarrow> env \<Rightarrow> handle \<Rightarrow> handle \<Rightarrow> node \<Rightarrow> url list \<Rightarrow> handler \<Rightarrow> trace
     \<Rightarrow> outcome \<times> node \<times> handler \<times> trace" where
  "openBroker net env b l s brokerURLs h tr =
     (let path = BrokerDir (config s)
      in case ClusterURL net s of
           Inl e \<Rightarrow> (Panicked e, s, h, tr)
         | Inr u \<Rightarrow>
          (let s1 = s\<lparr>Broker := Some b, raftLog := Some l\<rparr>;
               err = respond env tr (BrokerOpen b path);
               tr1 = tr @ [Ext (BrokerOpen b path) err]
           in case err of
                Some e \<Rightarrow>
                  (Fatal, s1, h, tr1 @ [Fatalf ''failed to open broker at %s : %s'' [AStr path, AErr e]])
              | None \<Rightarrow>
               (let tr2 = tr1 @ [Printf ''broker opened at %s'' [AStr path]];
                    err = respond env tr2 (RaftLogOpen l path);
                    tr3 = tr2 @ [Ext (RaftLogOpen l path) err]
                in case err of
                     Some e \<Rightarrow> (Fatal, s1, h, tr3 @ [Fatalf ''raft: %s'' [AErr e]])
                   | None \<Rightarrow>
                    (let h1 = h\<lparr>hBroker := Some b, hLog := Some l\<rparr>;
                         (index, term) = LastLogIndexTerm env tr3 l;
                         tr4 = tr3 @ [GotLastLogIndexTerm l index term]
                     in if index = 0 then
                          if length brokerURLs > 0 then
                            (let (out, tr5) = joinLog env l brokerURLs tr4 in (out, s1, h1, tr5))
                          else
                            (let err = respond env tr4 (RaftInitialize l);
                                 tr5 = tr4 @ [Ext (RaftInitialize l) err]
                             in case err of
                                  Some e \<Rightarrow>
                                    (Fatal, s1, h1, tr5 @ [Fatalf ''initialize raft log: %s'' [AErr e]])
                                | None \<Rightarrow>
                                   (let bu = BrokerURL env tr5 b;
                                        tr6 = tr5 @ [GotBrokerURL b bu]
                                    in (Returned, s1, h1,
                                        tr6 @ [Printf ''initialized broker: %s\<newline>'' [AUrl bu]])))
                        else
                          (Returned, s1, h1,
                           tr4 @ [Printf ''broker already member of cluster.  Using existing state and ignoring join URLs'' []])))))"

section \<open>Close\<close>

definition closeAdminServer :: "env \<Rightarrow> node \<Rightarrow> trace \<Rightarrow> go_error option \<times> node \<times> trace" where
  "closeAdminServer env s tr =
     (case adminServer s of
        Some a \<Rightarrow>
          (let err = respond env tr (AdminServerClose a)
           in (err, s, tr @ [Ext (AdminServerClose a) err]))
      | None \<Rightarrow> (None, s, tr))"

definition closeAPIListener :: "env \<Rightarrow> node \<Rightarrow> trace \<Rightarrow> go_error option \<times> node \<times> trace" where
  "closeAPIListener env s tr =
     (case apiListener s of
        Some l \<Rightarrow>
          (let err = respond env tr (ListenerClose l)
           in (err, s\<lparr>apiListener := None\<rparr>, tr @ [Ext (ListenerClose l) err]))
      | None \<Rightarrow> (None, s, tr))"

definition closeClusterListener :: "env \<Rightarrow> node \<Rightarrow> trace \<Rightarrow> go_error option \<times> node \<times> trace" where
  "closeClusterListener env s tr =
     (case clusterListener s of
        Some l \<Rightarrow>
          (let err = respond env tr (ListenerClose l)
           in (err, s\<lparr>clusterListener := None\<rparr>, tr @ [Ext (ListenerClose l) err]))
      | None \<Rightarrow> (None, s, tr))"

text \<open>The loop of \<open>Close\<close> over \<open>GraphiteServers\<close>: the first error returns.\<close>

fun closeGraphiteServers :: "env \<Rightarrow> handle list \<Rightarrow> trace \<Rightarrow> go_error option \<times> trace" where
  "closeGraphiteServers env [] tr = (None, tr)"
| "closeGraphiteServers env (g # gs) tr =
     (let err = respond env tr (GraphiteClose g);
          tr1 = tr @ [Ext (GraphiteClose g) err]
      in case err of Some e \<Rightarrow> (Some e, tr1) | None \<Rightarrow> closeGraphiteServers env gs tr1)"

text \<open>The pattern \<open>if p != nil { if err := p.Close(); err != nil { return err } }\<close>.\<close>

definition closeIfSet :: "env \<Rightarrow> (handle \<Rightarrow> call) \<Rightarrow> handle option \<Rightarrow> trace \<Rightarrow> go_error option \<times> trace" where
  "closeIfSet env c p tr =
     (case p of
        None \<Rightarrow> (None, tr)
      | Some x \<Rightarrow> (let err = respond env tr (c x) in (err, tr @ [Ext (c x) err])))"

definition Close :: "env \<Rightarrow> node \<Rightarrow> trace \<Rightarrow> go_error option \<times> node \<times> trace" where
  "Close env s tr =
     (case closeClusterListener env s tr of
        (Some e, s1, tr1) \<Rightarrow> (Some e, s1, tr1)
      | (None, s1, tr1) \<Rightarrow>
     (case closeAPIListener env s1 tr1 of
        (Some e, s2, tr2) \<Rightarrow> (Some e, s2, tr2)
      | (None, s2, tr2) \<Rightarrow>
     (case closeAdminServer env s2 tr2 of
        (Some e, s3, tr3) \<Rightarrow> (Some e, s3, tr3)
      | (None, s3, tr3) \<Rightarrow>
     (case closeGraphiteServers env (GraphiteServers s3) tr3 of
        (Some e, tr4) \<Rightarrow> (Some e, s3, tr4)
      | (None, tr4) \<Rightarrow>
     (case closeIfSet env OpenTSDBClose (OpenTSDBServer s3) tr4 of
        (Some e, tr5) \<Rightarrow> (Some e, s3, tr5)
      | (None, tr5) \<Rightarrow>
     (case closeIfSet env ServerClose (DataNode s3) tr5 of
        (Some e, tr6) \<Rightarrow> (Some e, s3, tr6)
      | (None, tr6) \<Rightarrow>
     (case closeIfSet env RaftLogClose (raftLog s3) tr6 of
        (Some e, tr7) \<Rightarrow> (Some e, s3, tr7)
      | (None, tr7) \<Rightarrow>
     (case closeIfSet env BrokerClose (Broker s3) tr7 of
        (Some e, tr8) \<Rightarrow> (Some e, s3, tr8)
      | (None, tr8) \<Rightarrow> (None, s3, tr8)))))))))"

section \<open>The data layer: joinOrInitializeServer and openServer\<close>

text \<open>
  The loop of \<open>joinOrInitializeServer\<close>. \<open>Some out\<close>: the loop body left the function
  (a \<open>return\<close>, or \<open>log.Fatalf\<close>); \<open>None\<close>: the range is exhausted and the code after the
  loop runs.
\<close>

fun joinServerLoop ::
  "env \<Rightarrow> handle \<Rightarrow> url \<Rightarrow> url list \<Rightarrow> trace \<Rightarrow> outcome option \<times> trace" where
  "joinServerLoop env n u [] tr = (None, tr)"
| "joinServerLoop env n u (joinURL # joinURLs) tr =
     (let err = respond env tr (ServerJoin n u joinURL);
          tr1 = tr @ [Ext (ServerJoin n u joinURL) err]
      in case err of
           Some ErrDataNodeNotFound \<Rightarrow>
             (let err2 = respond env tr1 (ServerInitialize n u);
                  tr2 = tr1 @ [Ext (ServerInitialize n u) err2]
              in case err2 of
                   Some e \<Rightarrow> (Some Fatal, tr2 @ [Fatalf ''server initialization error(1): %s'' [AErr e]])
                 | None \<Rightarrow> (Some Returned, tr2 @ [Printf ''initialized data node: %s\<newline>'' [AUrl u]]))
         | Some e \<Rightarrow>
             joinServerLoop env n u joinURLs
               (tr1 @ [Printf ''join: failed to connect data node: %s: %s'' [AUrl u, AErr e]])
         | None \<Rightarrow> (Some Returned, tr1 @ [Printf ''join: connected data node to %s'' [AUrl u]]))"

definition joinOrInitializeServer ::
  "env \<Rightarrow> handle \<Rightarrow> url \<Rightarrow> url list \<Rightarrow> trace \<Rightarrow> outcome \<times> trace" where
  "joinOrInitializeServer env n u joinURLs tr =
     (case joinServerLoop env n u joinURLs tr of
        (Some out, tr1) \<Rightarrow> (out, tr1)
      | (None, tr1) \<Rightarrow>
          if length joinURLs = 0 then
            (let err = respond env tr1 (ServerInitialize n u);
                 tr2 = tr1 @ [Ext (ServerInitialize n u) err]
             in case err of
                  Some e \<Rightarrow> (Fatal, tr2 @ [Fatalf ''server initialization error(2): %s'' [AErr e]])
                | None \<Rightarrow> (Returned, tr2 @ [Printf ''initialized data node: %s\<newline>'' [AUrl u]]))
          else
            (Fatal, tr1 @ [Fatalf ''join: failed to connect data node to any specified server'' []]))"

text \<open>
  \<open>n\<close> is the object \<open>influxdb.NewServer()\<close> returns; the function returns it. The
  messaging client is created from the cluster URL and given the join URLs; what URLs it
  holds after \<open>Open\<close> is the environment's answer. Copying configuration values and the
  build identifiers onto the server is left out, as in \<open>openBroker\<close>.
\<close>

definition openServer ::
  "netpkg \<Rightarrow> env \<Rightarrow> handle \<Rightarrow> node \<Rightarrow> url list \<Rightarrow> trace \<Rightarrow> outcome \<times> handle \<times> trace" where
  "openServer net env n s joinURLs tr =
     (case ClusterURL net s of
        Inl e \<Rightarrow> (Panicked e, n, tr)
      | Inr cu \<Rightarrow>
       (let dir = DataDir (config s);
            err = respond env tr (ClientOpen dir);
            tr1 = tr @ [Ext (ClientOpen dir) err]
        in case err of
             Some e \<Rightarrow> (Fatal, n, tr1 @ [Fatalf ''messaging client error: %s'' [AErr e]])
           | None \<Rightarrow>
              (let urls = ClientURLs env tr1;
                   tr2 = tr1 @ [GotClientURLs urls]
               in if length urls = 0 then
                    (Fatal, n, tr2 @ [Fatalf ''messaging client has no broker URLs'' []])
                  else
                   (let err = respond env tr2 (ServerOpen n dir);
                        tr3 = tr2 @ [Ext (ServerOpen n dir) err]
                    in case err of
                         Some e \<Rightarrow> (Fatal, n, tr3 @ [Fatalf ''failed to open data node: %v'' [AErr e]])
                       | None \<Rightarrow>
                        (let id1 = ServerID env tr3 n;
                             tr4 = tr3 @ [GotServerID n id1,
                                          Printf ''data node(%d) opened at %s'' [AInt id1, AStr dir],
                                          Sleep 1];
                             id2 = ServerID env tr4 n;
                             tr5 = tr4 @ [GotServerID n id2]
                         in if id2 = 0 then
                              (case ClusterURL net s of
                                 Inl e \<Rightarrow> (Panicked e, n, tr5)
                               | Inr u \<Rightarrow>
                                   (let (out, tr6) = joinOrInitializeServer env n u joinURLs tr5
                                    in (out, n, tr6)))
                            else
                              (Returned, n,
                               tr5 @ [Printf ''data node already member of cluster. Using existing state and ignoring join URLs'' []]))))))"

section \<open>Observations on traces\<close>

text \<open>The calls into collaborators that a trace holds, in order, and their answers.\<close>

fun ext_calls :: "trace \<Rightarrow> call list" where
  "ext_calls [] = []"
| "ext_calls (Ext c r # es) = c # ext_calls es"
| "ext_calls (e # es) = ext_calls es"

fun ext_answers :: "trace \<Rightarrow> go_error option list" where
  "ext_answers [] = []"
| "ext_answers (Ext c r # es) = r # ext_answers es"
| "ext_answers (e # es) = ext_answers es"

text \<open>The \<open>Join\<close> attempts on the raft log: the URL tried and the answer.\<close>

fun raft_joins :: "trace \<Rightarrow> (url \<times> go_error option) list" where
  "raft_joins [] = []"
| "raft_joins (Ext (RaftJoin l u) r # es) = (u, r) # raft_joins es"
| "raft_joins (e # es) = raft_joins es"

fun is_raft_initialize :: "event \<Rightarrow> bool" where
  "is_raft_initialize (Ext (RaftInitialize l) r) = True"
| "is_raft_initialize e = False"

fun is_raft_join :: "event \<Rightarrow> bool" where
  "is_raft_join (Ext (RaftJoin l u) r) = True"
| "is_raft_join e = False"

fun is_server_initialize :: "event \<Rightarrow> bool" where
  "is_server_initialize (Ext (ServerInitialize n u) r) = True"
| "is_server_initialize e = False"

fun is_server_join :: "event \<Rightarrow> bool" where
  "is_server_join (Ext (ServerJoin n u j) r) = True"
| "is_server_join e = False"


text \<open>A join or initialize call, on either layer, that returned \<open>nil\<close>.\<close>

fun membership_success :: "event \<Rightarrow> bool" where
  "membership_success (Ext (RaftJoin l u) None) = True"
| "membership_success (Ext (RaftInitialize l) None) = True"
| "membership_success (Ext (ServerJoin n u j) None) = True"
| "membership_success (Ext (ServerInitialize n u) None) = True"
| "membership_success e = False"

text \<open>The values read from \<open>LastLogIndexTerm\<close> and from \<open>ID\<close>, in order.\<close>

fun log_indexes :: "trace \<Rightarrow> 64 word list" where
  "log_indexes [] = []"
| "log_indexes (GotLastLogIndexTerm l i t # es) = i # log_indexes es"
| "log_indexes (e # es) = log_indexes es"

fun server_ids :: "trace \<Rightarrow> 64 word list" where
  "server_ids [] = []"
| "server_ids (GotServerID n i # es) = i # server_ids es"
| "server_ids (e # es) = server_ids es"

text \<open>
  An answer to the raft log's \<open>Join\<close> that makes \<open>joinLog\<close> go on to the next URL: an error
  other than \<open>ErrInitialized\<close>.
\<close>

fun ordinary_failure :: "go_error option \<Rightarrow> bool" where
  "ordinary_failure None = False"
| "ordinary_failure (Some ErrInitialized) = False"
| "ordinary_failure (Some e) = True"

text \<open>The handles \<open>Close\<close> goes through, as calls, in the order of its statements.\<close>

definition close_if_set :: "('a \<Rightarrow> call) \<Rightarrow> 'a option \<Rightarrow> call list" where
  "close_if_set c p = (case p of None \<Rightarrow> [] | Some x \<Rightarrow> [c x])"

definition close_sequence :: "node \<Rightarrow> call list" where
  "close_sequence s =
     close_if_set ListenerClose (clusterListener s) @
     close_if_set ListenerClose (apiListener s) @
     close_if_set AdminServerClose (adminServer s) @
     map GraphiteClose (GraphiteServers s) @
     close_if_set OpenTSDBClose (OpenTSDBServer s) @
     close_if_set ServerClose (DataNode s) @
     close_if_set RaftLogClose (raftLog s) @
     close_if_set BrokerClose (Broker s)"

text \<open>
  A reference for \<open>Close\<close>, written from the words "each step's error is propagated and
  halts further teardown": the calls of a list are made in order, the first error stops
  the sequence and is the result.
\<close>

fun close_in_order :: "env \<Rightarrow> call list \<Rightarrow> trace \<Rightarrow> go_error option \<times> trace" where
  "close_in_order env [] tr = (None, tr)"
| "close_in_order env (c # cs) tr =
     (case respond env tr c of
        Some e \<Rightarrow> (Some e, tr @ [Ext c (Some e)])
      | None \<Rightarrow> close_in_order env cs (tr @ [Ext c None]))"

text \<open>
  Modelled from the spec: the start order of the subsystems, which is fixed by the caller of
  this file's functions and is not part of it. The spec gives
  "cluster listener and API listener, then replicated-log layer, then data layer, then
  administrative server, then auxiliary ingest servers"; \<open>start_stage\<close> numbers these
  stages for the handle a close call releases (calls that close nothing get the stage 0).
\<close>

fun start_stage :: "call \<Rightarrow> nat" where
  "start_stage (ListenerClose l) = 0"
| "start_stage (RaftLogClose l) = 1"
| "start_stage (BrokerClose b) = 1"
| "start_stage (ServerClose n) = 2"
| "start_stage (AdminServerClose a) = 3"
| "start_stage (GraphiteClose g) = 4"
| "start_stage (OpenTSDBClose t) = 4"
| "start_stage c = 0"

text \<open>
  Releasing in strict reverse of the start order: a handle of an earlier stage is never
  released before a handle of a later stage.
\<close>

definition reverse_of_start_order :: "call list \<Rightarrow> bool" where
  "reverse_of_start_order cs = sorted (rev (map start_stage cs))"

section \<open>Sample collaborators for concrete runs\<close>

text \<open>
  A scripted environment: the listed calls fail with the listed error, every other call
  returns \<open>nil\<close>; the log index, the server identity and the client's URLs are fixed.
\<close>

definition scripted_env :: "(call \<times> go_error) list \<Rightarrow> 64 word \<Rightarrow> 64 word \<Rightarrow> url list \<Rightarrow> env" where
  "scripted_env failures index ident urls =
     \<lparr>respond = (\<lambda>tr c. map_of failures c),
      LastLogIndexTerm = (\<lambda>tr l. (index, 0)),
      ServerID = (\<lambda>tr n. ident),
      ClientURLs = (\<lambda>tr. urls),
      BrokerURL = (\<lambda>tr b. \<lparr>Scheme = ''http'', Host = ''node1:8086''\<rparr>)\<rparr>"

text \<open>
  A plain reading of host:port addresses, for concrete runs only: the port is what follows
  the last colon, and an address without a colon is an error.
\<close>

definition split_last_colon :: "string \<Rightarrow> go_error + string \<times> string" where
  "split_last_colon a =
     (if CHR '':'' \<in> set a
      then Inr (rev (tl (dropWhile (\<lambda>c. c \<noteq> CHR '':'') (rev a))),
                rev (takeWhile (\<lambda>c. c \<noteq> CHR '':'') (rev a)))
      else Inl (OtherError ''missing port in address''))"

definition sample_net :: netpkg where
  "sample_net = \<lparr>SplitHostPort = split_last_colon, JoinHostPort = (\<lambda>h p. h @ '':'' @ p)\<rparr>"

definition seed :: "string \<Rightarrow> url" where
  "seed h = \<lparr>Scheme = ''http'', Host = h\<rparr>"

definition cluster_listener :: listener where
  "cluster_listener = \<lparr>lid = 5, laddr = ''0.0.0.0:8086''\<rparr>"

definition api_listener :: listener where
  "api_listener = \<lparr>lid = 6, laddr = ''0.0.0.0:8087''\<rparr>"

text \<open>A node whose listeners are open and nothing else, and a node with every handle set.\<close>

definition listening_node :: node where
  "listening_node =
     \<lparr>Broker = None, DataNode = None, raftLog = None,
      config = \<lparr>BrokerDir = ''/b'', DataDir = ''/d''\<rparr>,
      hostname = ''node1'', adminServer = None,
      clusterListener = Some cluster_listener,
      apiListener = Some api_listener,
      GraphiteServers = [], OpenTSDBServer = None\<rparr>"

definition running_node :: node where
  "running_node =
     listening_node\<lparr>Broker := Some 1, DataNode := Some 2, raftLog := Some 3,
       adminServer := Some 4, GraphiteServers := [7, 8], OpenTSDBServer := Some 9\<rparr>"

definition fresh_handler :: handler where
  "fresh_handler = \<lparr>hBroker = None, hLog = None\<rparr>"

text \<open>
  Three runs from an empty trace, all of them with the log index 0 and the server identity
  0 and with collaborators that accept every call but one: a broker opened without join
  URLs, a broker opened with one join URL, and a data node opened with one join URL whose
  peer answers that it has no data nodes.
\<close>

definition quiet_env :: env where
  "quiet_env = scripted_env [] 0 0 [seed ''a:1'']"

definition no_data_nodes_env :: env where
  "no_data_nodes_env =
     scripted_env [(ServerJoin 2 (seed ''node1:8086'') (seed ''a:1''), ErrDataNodeNotFound)]
       0 0 [seed ''a:1'']"

definition founding_run :: "outcome \<times> node \<times> handler \<times> trace" where
  "founding_run = openBroker sample_net quiet_env 1 3 listening_node [] fresh_handler []"

definition joining_run :: "outcome \<times> node \<times> handler \<times> trace" where
  "joining_run = openBroker sample_net quiet_env 1 3 listening_node [seed ''a:1''] fresh_handler []"

definition first_data_node_run :: "outcome \<times> handle \<times> trace" where
  "first_data_node_run = openServer sample_net no_data_nodes_env 2 listening_node [seed ''a:1''] []"





section \<open>The log layer: what a run of openBroker does\<close>

text \<open>
  The events \<open>joinLog\<close> adds to the trace: its \<open>Join\<close> attempts follow the URL list, every
  attempt but the last failed with an error other than \<open>ErrInitialized\<close>, and the way the
  function ends is read off the last attempt.
\<close>

lemma joinLog_shape:
  "joinLog env l us tr = (out, tr') \<Longrightarrow>
   \<exists>new. tr' = tr @ new \<and>
     prefix (map fst (raft_joins new)) us \<and>
     (\<forall>r \<in> set (butlast (map snd (raft_joins new))). ordinary_failure r) \<and>
     (out = Returned \<longleftrightarrow> (raft_joins new \<noteq> [] \<and> \<not> ordinary_failure (snd (last (raft_joins new))))) \<and>
     (out = Fatal \<longleftrightarrow> (map fst (raft_joins new) = us \<and> (\<forall>r \<in> set (map snd (raft_joins new)). ordinary_failure r))) \<and>
     (out = Returned \<or> out = Fatal) \<and>
     (\<forall>e \<in> set new. \<not> is_raft_initialize e) \<and> log_indexes new = []"
proof (induction us arbitrary: tr out tr')
  case Nil
  then show ?case by auto
next
  case (Cons u us)
  show ?case
  proof (cases "respond env tr (RaftJoin l u)")
    case None
    with Cons.prems show ?thesis by auto
  next
    case (Some e)
    show ?thesis
    proof (cases "e = ErrInitialized")
      case True
      with Some Cons.prems show ?thesis by auto
    next
      case False
      let ?tr1 = "tr @ [Ext (RaftJoin l u) (Some e), Printf ''join: failed to connect to raft cluster: %s: %s'' [AUrl u, AErr e]]"
      from False Some Cons.prems have "joinLog env l us ?tr1 = (out, tr')"
        by (cases e) auto
      from Cons.IH[OF this] obtain new where
        n: "tr' = ?tr1 @ new" and
        p: "prefix (map fst (raft_joins new)) us" and
        b: "\<forall>r \<in> set (butlast (map snd (raft_joins new))). ordinary_failure r" and
        r: "out = Returned \<longleftrightarrow> (raft_joins new \<noteq> [] \<and> \<not> ordinary_failure (snd (last (raft_joins new))))" and
        f: "out = Fatal \<longleftrightarrow> (map fst (raft_joins new) = us \<and> (\<forall>r \<in> set (map snd (raft_joins new)). ordinary_failure r))" and
        o: "out = Returned \<or> out = Fatal" and
        i: "\<forall>e \<in> set new. \<not> is_raft_initialize e" and g: "log_indexes new = []"
        by blast
      have of: "ordinary_failure (Some e)" using False by (cases e) auto
      let ?new = "Ext (RaftJoin l u) (Some e) # Printf ''join: failed to connect to raft cluster: %s: %s'' [AUrl u, AErr e] # new"
      have "tr' = tr @ ?new" using n by simp
      moreover have "prefix (map fst (raft_joins ?new)) (u # us)" using p by simp
      moreover have "\<forall>r \<in> set (butlast (map snd (raft_joins ?new))). ordinary_failure r"
        using b of by (cases "raft_joins new = []") simp_all
      moreover have "out = Returned \<longleftrightarrow> (raft_joins ?new \<noteq> [] \<and> \<not> ordinary_failure (snd (last (raft_joins ?new))))"
        using r of by (cases "raft_joins new = []") simp_all
      moreover have "out = Fatal \<longleftrightarrow> (map fst (raft_joins ?new) = u # us \<and> (\<forall>r \<in> set (map snd (raft_joins ?new)). ordinary_failure r))"
        using f of by simp
      moreover have "\<forall>e \<in> set ?new. \<not> is_raft_initialize e" using i by simp
      moreover have "log_indexes ?new = []" using g by simp
      ultimately show ?thesis using o by (intro exI[of _ ?new] conjI)
    qed
  qed
qed

text \<open>The runs of \<open>openBroker\<close>, by the place where it ends.\<close>

lemma openBroker_runs:
  assumes "openBroker net env b l s urls h tr = (out, s', h', tr')"
  obtains
    (panic) e where "out = Panicked e" "tr' = tr"
  | (broker_failed) e m a where "out = Fatal"
      "tr' = tr @ [Ext (BrokerOpen b (BrokerDir (config s))) (Some e), Fatalf m a]"
  | (log_failed) e m a m' a' where "out = Fatal"
      "tr' = tr @ [Ext (BrokerOpen b (BrokerDir (config s))) None, Printf m a,
                   Ext (RaftLogOpen l (BrokerDir (config s))) (Some e), Fatalf m' a']"
  | (member) i t m a where "i \<noteq> 0" "out = Returned"
      "tr' = tr @ [Ext (BrokerOpen b (BrokerDir (config s))) None, Printf m a,
                   Ext (RaftLogOpen l (BrokerDir (config s))) None, GotLastLogIndexTerm l i t,
                   Printf ''broker already member of cluster.  Using existing state and ignoring join URLs'' []]"
  | (join) t m a pre where "urls \<noteq> []"
      "pre = tr @ [Ext (BrokerOpen b (BrokerDir (config s))) None, Printf m a,
                   Ext (RaftLogOpen l (BrokerDir (config s))) None, GotLastLogIndexTerm l 0 t]"
      "joinLog env l urls pre = (out, tr')"
  | (init_failed) t m a e m' a' where "urls = []" "out = Fatal"
      "tr' = tr @ [Ext (BrokerOpen b (BrokerDir (config s))) None, Printf m a,
                   Ext (RaftLogOpen l (BrokerDir (config s))) None, GotLastLogIndexTerm l 0 t,
                   Ext (RaftInitialize l) (Some e), Fatalf m' a']"
  | (init_ok) t m a u m' a' where "urls = []" "out = Returned"
      "tr' = tr @ [Ext (BrokerOpen b (BrokerDir (config s))) None, Printf m a,
                   Ext (RaftLogOpen l (BrokerDir (config s))) None, GotLastLogIndexTerm l 0 t,
                   Ext (RaftInitialize l) None, GotBrokerURL b u, Printf m' a']"
  using assms unfolding openBroker_def Let_def
  by (auto split: sum.splits option.splits prod.splits if_splits)

text \<open>
  Claim C1. In a run of \<open>openBroker\<close> that read the log index 0 and was given a non-empty
  list of broker URLs, the URLs on which \<open>Join\<close> was called are a prefix of the list: they
  are tried in list order and no entry is tried twice. Every attempt before the last one
  failed with an ordinary error (one that is not \<open>ErrInitialized\<close>), so an answer of
  \<open>nil\<close> or of \<open>ErrInitialized\<close> is always the last attempt. The run returns exactly when
  the last attempt was answered by \<open>nil\<close> or \<open>ErrInitialized\<close>, and it ends in
  \<open>log.Fatalf\<close> exactly when every URL of the list was tried and each failed with an
  ordinary error. \<open>Initialize\<close> is not called.
\<close>

theorem openBroker_joins_in_order:
  assumes run: "openBroker net env b l s brokerURLs h tr = (out, s', h', tr @ new)"
      and idx: "log_indexes new = [0]"
      and ne: "brokerURLs \<noteq> []"
  shows "prefix (map fst (raft_joins new)) brokerURLs \<and>
     (\<forall>r \<in> set (butlast (map snd (raft_joins new))). ordinary_failure r) \<and>
     (out = Returned \<longleftrightarrow> (raft_joins new \<noteq> [] \<and> \<not> ordinary_failure (snd (last (raft_joins new))))) \<and>
     (out = Fatal \<longleftrightarrow> (map fst (raft_joins new) = brokerURLs \<and> (\<forall>r \<in> set (map snd (raft_joins new)). ordinary_failure r))) \<and>
     (out = Returned \<or> out = Fatal) \<and>
     filter is_raft_initialize new = []"
  using run
proof (cases rule: openBroker_runs)
  case (join t m a pre)
  from joinLog_shape[OF join(3)] obtain newj where
    n: "tr @ new = pre @ newj" and
    p: "prefix (map fst (raft_joins newj)) brokerURLs" and
    b: "\<forall>r \<in> set (butlast (map snd (raft_joins newj))). ordinary_failure r" and
    r: "out = Returned \<longleftrightarrow> (raft_joins newj \<noteq> [] \<and> \<not> ordinary_failure (snd (last (raft_joins newj))))" and
    f: "out = Fatal \<longleftrightarrow> (map fst (raft_joins newj) = brokerURLs \<and> (\<forall>r \<in> set (map snd (raft_joins newj)). ordinary_failure r))" and
    o: "out = Returned \<or> out = Fatal" and
    i: "\<forall>e \<in> set newj. \<not> is_raft_initialize e"
    by blast
  from n join(2) have new: "new = [Ext (BrokerOpen b (BrokerDir (config s))) None, Printf m a,
                   Ext (RaftLogOpen l (BrokerDir (config s))) None, GotLastLogIndexTerm l 0 t] @ newj"
    by simp
  have rj: "raft_joins new = raft_joins newj" unfolding new by simp
  have "filter is_raft_initialize new = []" unfolding new using i by (simp add: filter_empty_conv)
  with p b r f o show ?thesis unfolding rj by blast
qed (use idx ne in auto)

theorem openBroker_joins_in_order_witness:
  "let env = scripted_env [(RaftJoin 3 (seed ''a:1''), OtherError ''refused'')] 0 0 [];
       urls = [seed ''a:1'', seed ''b:1'', seed ''c:1''];
       new = [Ext (BrokerOpen 1 ''/b'') None,
              Printf ''broker opened at %s'' [AStr ''/b''],
              Ext (RaftLogOpen 3 ''/b'') None,
              GotLastLogIndexTerm 3 0 0,
              Ext (RaftJoin 3 (seed ''a:1'')) (Some (OtherError ''refused'')),
              Printf ''join: failed to connect to raft cluster: %s: %s''
                [AUrl (seed ''a:1''), AErr (OtherError ''refused'')],
              Ext (RaftJoin 3 (seed ''b:1'')) None,
              Printf ''join: connected raft log to %s'' [AUrl (seed ''b:1'')]]
   in openBroker sample_net env 1 3 listening_node urls fresh_handler []
        = (Returned, listening_node\<lparr>Broker := Some 1, raftLog := Some 3\<rparr>,
           \<lparr>hBroker = Some 1, hLog = Some 3\<rparr>, [] @ new) \<and>
      log_indexes new = [0] \<and> urls \<noteq> [] \<and>
      prefix (map fst (raft_joins new)) urls \<and>
      map fst (raft_joins new) = [seed ''a:1'', seed ''b:1''] \<and>
      (\<forall>r \<in> set (butlast (map snd (raft_joins new))). ordinary_failure r) \<and>
      filter is_raft_initialize new = []"
proof -
  define env where "env = scripted_env [(RaftJoin 3 (seed ''a:1''), OtherError ''refused'')] 0 0 []"
  define urls where "urls = [seed ''a:1'', seed ''b:1'', seed ''c:1'']"
  define new where "new = [Ext (BrokerOpen 1 ''/b'') None,
              Printf ''broker opened at %s'' [AStr ''/b''],
              Ext (RaftLogOpen 3 ''/b'') None,
              GotLastLogIndexTerm 3 0 0,
              Ext (RaftJoin 3 (seed ''a:1'')) (Some (OtherError ''refused'')),
              Printf ''join: failed to connect to raft cluster: %s: %s''
                [AUrl (seed ''a:1''), AErr (OtherError ''refused'')],
              Ext (RaftJoin 3 (seed ''b:1'')) None,
              Printf ''join: connected raft log to %s'' [AUrl (seed ''b:1'')]]"
  have run: "openBroker sample_net env 1 3 listening_node urls fresh_handler []
        = (Returned, listening_node\<lparr>Broker := Some 1, raftLog := Some 3\<rparr>,
           \<lparr>hBroker = Some 1, hLog = Some 3\<rparr>, [] @ new)"
    by (simp add: openBroker_def Let_def ClusterURL_def ClusterAddr_def sample_net_def
        split_last_colon_def listening_node_def cluster_listener_def scripted_env_def seed_def fresh_handler_def env_def urls_def new_def)
  have idx: "log_indexes new = [0]" by (simp add: new_def)
  have ne: "urls \<noteq> []" by (simp add: urls_def)
  have js: "map fst (raft_joins new) = [seed ''a:1'', seed ''b:1'']" by (simp add: new_def)
  from openBroker_joins_in_order[OF run idx ne] run idx ne js
  show ?thesis unfolding Let_def env_def urls_def new_def by blast
qed

text \<open>
  Claim C2. In a run of \<open>openBroker\<close> that read a log index other than 0, whatever the list
  of broker URLs is, the function returns, the trace holds no \<open>Join\<close> and no \<open>Initialize\<close>
  call on the raft log, and the last thing the run does is log that the broker is already
  a member of the cluster and that the join URLs are ignored.
\<close>

theorem openBroker_member_ignores_seeds:
  assumes run: "openBroker net env b l s brokerURLs h tr = (out, s', h', tr @ new)"
      and idx: "log_indexes new = [i]"
      and nz: "i \<noteq> 0"
  shows "out = Returned \<and>
     filter is_raft_join new = [] \<and> filter is_raft_initialize new = [] \<and>
     last new = Printf ''broker already member of cluster.  Using existing state and ignoring join URLs'' []"
  using run
proof (cases rule: openBroker_runs)
  case (join t m a pre)
  from joinLog_shape[OF join(3)] obtain newj where
    n: "tr @ new = pre @ newj" and g: "log_indexes newj = []"
    by blast
  from n join(2) have new: "new = [Ext (BrokerOpen b (BrokerDir (config s))) None, Printf m a,
                   Ext (RaftLogOpen l (BrokerDir (config s))) None, GotLastLogIndexTerm l 0 t] @ newj"
    by simp
  have "log_indexes new = [0]" unfolding new using g by simp
  with idx nz show ?thesis by simp
qed (use idx nz in auto)

theorem openBroker_member_ignores_seeds_witness:
  "let env = scripted_env [(RaftJoin 3 (seed ''a:1''), OtherError ''refused'')] 7 0 [];
       new = [Ext (BrokerOpen 1 ''/b'') None,
              Printf ''broker opened at %s'' [AStr ''/b''],
              Ext (RaftLogOpen 3 ''/b'') None,
              GotLastLogIndexTerm 3 7 0,
              Printf ''broker already member of cluster.  Using existing state and ignoring join URLs'' []]
   in openBroker sample_net env 1 3 listening_node [seed ''a:1'', seed ''b:1'']
          fresh_handler []
        = (Returned, listening_node\<lparr>Broker := Some 1, raftLog := Some 3\<rparr>,
           \<lparr>hBroker = Some 1, hLog = Some 3\<rparr>, [] @ new) \<and>
      log_indexes new = [7] \<and> (7 :: 64 word) \<noteq> 0 \<and>
      filter is_raft_join new = [] \<and> filter is_raft_initialize new = [] \<and>
      last new = Printf ''broker already member of cluster.  Using existing state and ignoring join URLs'' []"
proof -
  define env where "env = scripted_env [(RaftJoin 3 (seed ''a:1''), OtherError ''refused'')] 7 0 []"
  define new where "new = [Ext (BrokerOpen 1 ''/b'') None,
              Printf ''broker opened at %s'' [AStr ''/b''],
              Ext (RaftLogOpen 3 ''/b'') None,
              GotLastLogIndexTerm 3 7 0,
              Printf ''broker already member of cluster.  Using existing state and ignoring join URLs'' []]"
  have run: "openBroker sample_net env 1 3 listening_node [seed ''a:1'', seed ''b:1'']
          fresh_handler []
        = (Returned, listening_node\<lparr>Broker := Some 1, raftLog := Some 3\<rparr>,
           \<lparr>hBroker = Some 1, hLog = Some 3\<rparr>, [] @ new)"
    by (simp add: openBroker_def Let_def ClusterURL_def ClusterAddr_def sample_net_def
        split_last_colon_def listening_node_def cluster_listener_def scripted_env_def seed_def fresh_handler_def env_def new_def)
  have idx: "log_indexes new = [7]" by (simp add: new_def)
  have nz: "(7 :: 64 word) \<noteq> 0" by simp
  from openBroker_member_ignores_seeds[OF run idx nz] run idx nz
  show ?thesis unfolding Let_def env_def new_def by blast
qed

section \<open>Close against its reference\<close>

text \<open>
  \<open>Close\<close> makes the calls of \<open>close_sequence\<close> in order and stops at the first error. The
  loop over the Graphite servers and each guarded close are instances of \<open>close_in_order\<close>;
  the sequence of them is its concatenation.
\<close>

lemma close_in_order_append:
  "close_in_order env (xs @ ys) tr =
     (case close_in_order env xs tr of
        (Some e, tr1) \<Rightarrow> (Some e, tr1)
      | (None, tr1) \<Rightarrow> close_in_order env ys tr1)"
  by (induction xs arbitrary: tr) (auto split: option.splits)

lemma closeGraphiteServers_refines:
  "closeGraphiteServers env gs tr = close_in_order env (map GraphiteClose gs) tr"
  by (induction gs arbitrary: tr) (auto simp: Let_def split: option.splits)

lemma closeIfSet_refines:
  "closeIfSet env c p tr = close_in_order env (close_if_set c p) tr"
  by (auto simp: closeIfSet_def close_if_set_def Let_def split: option.splits)

lemma closeClusterListener_refines:
  "closeClusterListener env s tr =
     (fst (close_in_order env (close_if_set ListenerClose (clusterListener s)) tr),
      s\<lparr>clusterListener := None\<rparr>,
      snd (close_in_order env (close_if_set ListenerClose (clusterListener s)) tr))"
  by (auto simp: closeClusterListener_def close_if_set_def Let_def split: option.splits)

lemma closeAPIListener_refines:
  "closeAPIListener env s tr =
     (fst (close_in_order env (close_if_set ListenerClose (apiListener s)) tr),
      s\<lparr>apiListener := None\<rparr>,
      snd (close_in_order env (close_if_set ListenerClose (apiListener s)) tr))"
  by (auto simp: closeAPIListener_def close_if_set_def Let_def split: option.splits)

lemma closeAdminServer_refines:
  "closeAdminServer env s tr =
     (fst (close_in_order env (close_if_set AdminServerClose (adminServer s)) tr),
      s,
      snd (close_in_order env (close_if_set AdminServerClose (adminServer s)) tr))"
  by (auto simp: closeAdminServer_def close_if_set_def Let_def split: option.splits)

lemma chain_last:
  "(case X of (Some e, t1) \<Rightarrow> (Some e, s, t1) | (None, t1) \<Rightarrow> (None, s, t1)) = (fst X, s, snd X)"
  by (simp split: prod.splits option.splits)

lemma chain_step:
  "(case close_in_order env xs tr of
      (Some e, t1) \<Rightarrow> (Some e, s, t1)
    | (None, t1) \<Rightarrow> (fst (close_in_order env ys t1), s, snd (close_in_order env ys t1)))
   = (fst (close_in_order env (xs @ ys) tr), s, snd (close_in_order env (xs @ ys) tr))"
  by (simp add: close_in_order_append split: prod.splits option.splits)

lemma Close_tail:
  "(case closeGraphiteServers env (GraphiteServers s3) tr3 of
        (Some e, tr4) \<Rightarrow> (Some e, s3, tr4)
      | (None, tr4) \<Rightarrow>
     (case closeIfSet env OpenTSDBClose (OpenTSDBServer s3) tr4 of
        (Some e, tr5) \<Rightarrow> (Some e, s3, tr5)
      | (None, tr5) \<Rightarrow>
     (case closeIfSet env ServerClose (DataNode s3) tr5 of
        (Some e, tr6) \<Rightarrow> (Some e, s3, tr6)
      | (None, tr6) \<Rightarrow>
     (case closeIfSet env RaftLogClose (raftLog s3) tr6 of
        (Some e, tr7) \<Rightarrow> (Some e, s3, tr7)
      | (None, tr7) \<Rightarrow>
     (case closeIfSet env BrokerClose (Broker s3) tr7 of
        (Some e, tr8) \<Rightarrow> (Some e, s3, tr8)
      | (None, tr8) \<Rightarrow> (None, s3, tr8))))))
   = (fst (close_in_order env
            (map GraphiteClose (GraphiteServers s3) @
             close_if_set OpenTSDBClose (OpenTSDBServer s3) @
             close_if_set ServerClose (DataNode s3) @
             close_if_set RaftLogClose (raftLog s3) @
             close_if_set BrokerClose (Broker s3)) tr3),
      s3,
      snd (close_in_order env
            (map GraphiteClose (GraphiteServers s3) @
             close_if_set OpenTSDBClose (OpenTSDBServer s3) @
             close_if_set ServerClose (DataNode s3) @
             close_if_set RaftLogClose (raftLog s3) @
             close_if_set BrokerClose (Broker s3)) tr3))"
  unfolding closeGraphiteServers_refines closeIfSet_refines
  by (simp only: chain_last chain_step)

lemma Close_refines:
  assumes "Close env s tr = (r, s', tr')"
  shows "close_in_order env (close_sequence s) tr = (r, tr')"
proof -
  let ?A = "close_if_set ListenerClose (clusterListener s)"
  let ?B = "close_if_set ListenerClose (apiListener s)"
  let ?C = "close_if_set AdminServerClose (adminServer s)"
  let ?T = "map GraphiteClose (GraphiteServers s) @
             close_if_set OpenTSDBClose (OpenTSDBServer s) @
             close_if_set ServerClose (DataNode s) @
             close_if_set RaftLogClose (raftLog s) @
             close_if_set BrokerClose (Broker s)"
  obtain ra ta where a: "close_in_order env ?A tr = (ra, ta)" by fastforce
  obtain rb tb where b: "close_in_order env ?B ta = (rb, tb)" by fastforce
  obtain rc tc where c: "close_in_order env ?C tb = (rc, tc)" by fastforce
  obtain rt tt where t: "close_in_order env ?T tc = (rt, tt)" by fastforce
  have seq: "close_sequence s = ?A @ ?B @ ?C @ ?T" by (simp add: close_sequence_def)
  show ?thesis
  proof (cases ra)
    case (Some e)
    with a assms have "r = Some e" "tr' = ta"
      unfolding Close_def closeClusterListener_refines by simp_all
    with a Some show ?thesis unfolding seq close_in_order_append[of env ?A] by simp
  next
    case ra: None
    show ?thesis
    proof (cases rb)
      case (Some e)
      with a b ra assms have "r = Some e" "tr' = tb"
        unfolding Close_def closeClusterListener_refines closeAPIListener_refines by simp_all
      with a b ra Some show ?thesis
        unfolding seq close_in_order_append[of env ?A] close_in_order_append[of env ?B] by simp
    next
      case rb: None
      show ?thesis
      proof (cases rc)
        case (Some e)
        with a b c ra rb assms have "r = Some e" "tr' = tc"
          unfolding Close_def closeClusterListener_refines closeAPIListener_refines
            closeAdminServer_refines by simp_all
        with a b c ra rb Some show ?thesis
          unfolding seq close_in_order_append[of env ?A] close_in_order_append[of env ?B]
            close_in_order_append[of env ?C] by simp
      next
        case rc: None
        with a b c t ra rb assms have "r = rt" "tr' = tt"
          unfolding Close_def Close_tail closeClusterListener_refines closeAPIListener_refines
            closeAdminServer_refines by simp_all
        with a b c t ra rb rc show ?thesis
          unfolding seq close_in_order_append[of env ?A] close_in_order_append[of env ?B]
            close_in_order_append[of env ?C] by simp
      qed
    qed
  qed
qed

text \<open>What a run of \<open>close_in_order\<close> leaves in the trace.\<close>

lemma close_in_order_shape:
  "close_in_order env cs tr = (r, tr') \<Longrightarrow>
   \<exists>new. tr' = tr @ new \<and>
     new = map2 Ext (ext_calls new) (ext_answers new) \<and>
     length (ext_answers new) = length (ext_calls new) \<and>
     prefix (ext_calls new) cs \<and>
     (\<forall>a \<in> set (butlast (ext_answers new)). a = None) \<and>
     (case r of
        None \<Rightarrow> ext_calls new = cs \<and> (\<forall>a \<in> set (ext_answers new). a = None)
      | Some e \<Rightarrow> ext_answers new \<noteq> [] \<and> last (ext_answers new) = Some e)"
proof (induction cs arbitrary: tr)
  case Nil
  then show ?case by auto
next
  case (Cons c cs)
  show ?case
  proof (cases "respond env tr c")
    case (Some e)
    with Cons.prems have "r = Some e" "tr' = tr @ [Ext c (Some e)]" by auto
    then show ?thesis by (intro exI[of _ "[Ext c (Some e)]"]) simp
  next
    case None
    with Cons.prems have "close_in_order env cs (tr @ [Ext c None]) = (r, tr')" by simp
    from Cons.IH[OF this] obtain new where
      n: "tr' = (tr @ [Ext c None]) @ new" and
      z: "new = map2 Ext (ext_calls new) (ext_answers new)" and
      l: "length (ext_answers new) = length (ext_calls new)" and
      p: "prefix (ext_calls new) cs" and
      b: "\<forall>a \<in> set (butlast (ext_answers new)). a = None" and
      c: "case r of
            None \<Rightarrow> ext_calls new = cs \<and> (\<forall>a \<in> set (ext_answers new). a = None)
          | Some e \<Rightarrow> ext_answers new \<noteq> [] \<and> last (ext_answers new) = Some e"
      by blast
    let ?new = "Ext c None # new"
    have "tr' = tr @ ?new" using n by simp
    moreover have "?new = map2 Ext (ext_calls ?new) (ext_answers ?new)" using z by simp
    moreover have "length (ext_answers ?new) = length (ext_calls ?new)" using l by simp
    moreover have "prefix (ext_calls ?new) (c # cs)" using p by simp
    moreover have "\<forall>a \<in> set (butlast (ext_answers ?new)). a = None"
      using b by (cases "ext_answers new = []") simp_all
    moreover have "case r of
            None \<Rightarrow> ext_calls ?new = c # cs \<and> (\<forall>a \<in> set (ext_answers ?new). a = None)
          | Some e \<Rightarrow> ext_answers ?new \<noteq> [] \<and> last (ext_answers ?new) = Some e"
      using c by (cases r) simp_all
    ultimately show ?thesis by (intro exI[of _ ?new] conjI)
  qed
qed




text \<open>
  Claim C6. In a run of \<open>Close\<close> the trace grows by close calls only; the calls made are an
  initial part of the close sequence of the node, and every call but the last one made
  returned \<open>nil\<close>. If \<open>Close\<close> returns an error, that error is the answer of the last call
  made, so no handle after the failing one is closed; if \<open>Close\<close> returns \<open>nil\<close>, the
  whole sequence was called and every call returned \<open>nil\<close>.
\<close>

theorem Close_halts_at_first_error:
  assumes "Close env s tr = (r, s', tr @ new)"
  shows "new = map2 Ext (ext_calls new) (ext_answers new) \<and>
     prefix (ext_calls new) (close_sequence s) \<and>
     (\<forall>a \<in> set (butlast (ext_answers new)). a = None) \<and>
     (case r of
        None \<Rightarrow> ext_calls new = close_sequence s \<and> (\<forall>a \<in> set (ext_answers new). a = None)
      | Some e \<Rightarrow> ext_answers new \<noteq> [] \<and> last (ext_answers new) = Some e)"
  using close_in_order_shape[OF Close_refines[OF assms]] by auto

theorem Close_halts_at_first_error_witness:
  "let env = scripted_env [(AdminServerClose 4, OtherError ''busy'')] 0 0 [];
       new = [Ext (ListenerClose cluster_listener) None,
              Ext (ListenerClose api_listener) None,
              Ext (AdminServerClose 4) (Some (OtherError ''busy''))]
   in Close env running_node []
        = (Some (OtherError ''busy''),
           running_node\<lparr>clusterListener := None, apiListener := None\<rparr>, [] @ new) \<and>
      prefix (ext_calls new) (close_sequence running_node) \<and>
      (\<forall>a \<in> set (butlast (ext_answers new)). a = None) \<and>
      ext_answers new \<noteq> [] \<and> last (ext_answers new) = Some (OtherError ''busy'')"
proof -
  define env where "env = scripted_env [(AdminServerClose 4, OtherError ''busy'')] 0 0 []"
  define new where "new = [Ext (ListenerClose cluster_listener) None,
              Ext (ListenerClose api_listener) None,
              Ext (AdminServerClose 4) (Some (OtherError ''busy''))]"
  have run: "Close env running_node []
        = (Some (OtherError ''busy''),
           running_node\<lparr>clusterListener := None, apiListener := None\<rparr>, [] @ new)"
    by (simp add: Close_def closeClusterListener_def closeAPIListener_def closeAdminServer_def
        Let_def scripted_env_def running_node_def listening_node_def cluster_listener_def
        api_listener_def env_def new_def)
  from Close_halts_at_first_error[OF run] run
  show ?thesis unfolding Let_def env_def new_def by simp
qed

text \<open>
  Claim C5, as the code has it. The spec's start order is: listeners, replicated-log layer,
  data layer, administrative server, auxiliary ingest servers. \<open>Close\<close> does not release in
  the reverse of that order: it closes the two listeners first, although they are started
  first, and the administrative server before the ingest servers, although it is started
  before them. On a node with every handle set and collaborators that never fail, the
  sequence of close calls is not in reverse start order.
\<close>

theorem Close_not_reverse_of_start_order:
  "\<not> reverse_of_start_order (ext_calls (snd (snd (Close (scripted_env [] 0 0 []) running_node []))))"
  by (simp add: Close_def closeClusterListener_def closeAPIListener_def closeAdminServer_def
      closeIfSet_def Let_def scripted_env_def running_node_def listening_node_def
      cluster_listener_def api_listener_def
      reverse_of_start_order_def)

lemma sorted_graphite_stages: "sorted (map (start_stage \<circ> GraphiteClose) gs)"
  by (induction gs) auto

text \<open>
  Claim C5, amended. When \<open>Close\<close> returns \<open>nil\<close>, the handles that are set were closed in
  this fixed order: cluster listener, API listener, administrative server, the Graphite
  servers in list order, the OpenTSDB server, the data node, the raft log, the broker. From
  the Graphite servers on, that is the reverse of the start order.
\<close>

theorem Close_order:
  assumes "Close env s tr = (None, s', tr @ new)"
  shows "ext_calls new =
       close_if_set ListenerClose (clusterListener s) @
       close_if_set ListenerClose (apiListener s) @
       close_if_set AdminServerClose (adminServer s) @
       map GraphiteClose (GraphiteServers s) @
       close_if_set OpenTSDBClose (OpenTSDBServer s) @
       close_if_set ServerClose (DataNode s) @
       close_if_set RaftLogClose (raftLog s) @
       close_if_set BrokerClose (Broker s) \<and>
     reverse_of_start_order
      (map GraphiteClose (GraphiteServers s) @
       close_if_set OpenTSDBClose (OpenTSDBServer s) @
       close_if_set ServerClose (DataNode s) @
       close_if_set RaftLogClose (raftLog s) @
       close_if_set BrokerClose (Broker s))"
proof -
  from close_in_order_shape[OF Close_refines[OF assms]]
  have "ext_calls new = close_sequence s" by auto
  moreover have "reverse_of_start_order
      (map GraphiteClose (GraphiteServers s) @
       close_if_set OpenTSDBClose (OpenTSDBServer s) @
       close_if_set ServerClose (DataNode s) @
       close_if_set RaftLogClose (raftLog s) @
       close_if_set BrokerClose (Broker s))"
    by (auto simp: reverse_of_start_order_def close_if_set_def sorted_append rev_map
        sorted_graphite_stages split: option.splits)
  ultimately show ?thesis by (simp add: close_sequence_def)
qed

theorem Close_order_witness:
  "let env = scripted_env [] 0 0 [];
       new = [Ext (ListenerClose cluster_listener) None,
              Ext (ListenerClose api_listener) None,
              Ext (AdminServerClose 4) None,
              Ext (GraphiteClose 7) None, Ext (GraphiteClose 8) None,
              Ext (OpenTSDBClose 9) None, Ext (ServerClose 2) None,
              Ext (RaftLogClose 3) None, Ext (BrokerClose 1) None]
   in Close env running_node []
        = (None, running_node\<lparr>clusterListener := None, apiListener := None\<rparr>, [] @ new) \<and>
      ext_calls new =
        [ListenerClose cluster_listener, ListenerClose api_listener, AdminServerClose 4,
         GraphiteClose 7, GraphiteClose 8, OpenTSDBClose 9, ServerClose 2,
         RaftLogClose 3, BrokerClose 1] \<and>
      reverse_of_start_order
        [GraphiteClose 7, GraphiteClose 8, OpenTSDBClose 9, ServerClose 2,
         RaftLogClose 3, BrokerClose 1]"
proof -
  define env where "env = scripted_env [] 0 0 []"
  define new where "new = [Ext (ListenerClose cluster_listener) None,
              Ext (ListenerClose api_listener) None,
              Ext (AdminServerClose 4) None,
              Ext (GraphiteClose 7) None, Ext (GraphiteClose 8) None,
              Ext (OpenTSDBClose 9) None, Ext (ServerClose 2) None,
              Ext (RaftLogClose 3) None, Ext (BrokerClose 1) None]"
  have run: "Close env running_node []
        = (None, running_node\<lparr>clusterListener := None, apiListener := None\<rparr>, [] @ new)"
    by (simp add: Close_def closeClusterListener_def closeAPIListener_def closeAdminServer_def
        closeIfSet_def Let_def scripted_env_def running_node_def listening_node_def
        cluster_listener_def api_listener_def env_def new_def)
  from Close_order[OF run] run
  show ?thesis
    unfolding Let_def env_def new_def
    by (simp add: close_if_set_def running_node_def listening_node_def)
qed

text \<open>
  Claim C9. After \<open>closeAPIListener\<close> (or \<open>closeClusterListener\<close>) has run once, whatever it
  returned, a second call on the resulting node returns \<open>nil\<close> and leaves the node and the
  trace as they are: it makes no close call. The same holds for any node whose listener
  field is \<open>nil\<close>.
\<close>

theorem close_listener_twice:
  "(let (r1, s1, tr1) = closeAPIListener env s tr
    in closeAPIListener env' s1 tr' = (None, s1, tr')) \<and>
   (let (r1, s1, tr1) = closeClusterListener env s tr
    in closeClusterListener env' s1 tr' = (None, s1, tr')) \<and>
   closeAPIListener env (s\<lparr>apiListener := None\<rparr>) tr = (None, s\<lparr>apiListener := None\<rparr>, tr) \<and>
   closeClusterListener env (s\<lparr>clusterListener := None\<rparr>) tr = (None, s\<lparr>clusterListener := None\<rparr>, tr)"
  by (simp add: closeAPIListener_def closeClusterListener_def Let_def split: option.splits)










section \<open>The data layer: what a run of joinOrInitializeServer and of openServer does\<close>

lemma server_ids_append: "server_ids (xs @ ys) = server_ids xs @ server_ids ys"
  by (induction xs rule: server_ids.induct) simp_all

lemma joinServerLoop_shape:
  "joinServerLoop env n u js tr = (out, tr') \<Longrightarrow>
   \<exists>new. tr' = tr @ new \<and>
     server_ids new = [] \<and>
     length (filter membership_success new) \<le> 1 \<and>
     length (filter is_server_initialize new) \<le> 1 \<and>
     (out = None \<longrightarrow> filter membership_success new = [] \<and> filter is_server_initialize new = []) \<and>
     (js = [] \<longrightarrow> new = [] \<and> out = None) \<and>
     (out = None \<or> out = Some Returned \<or> out = Some Fatal)"
proof (induction js arbitrary: tr)
  case Nil
  then show ?case by auto
next
  case (Cons j js)
  show ?case
  proof (cases "respond env tr (ServerJoin n u j)")
    case None
    with Cons.prems show ?thesis by auto
  next
    case (Some e)
    show ?thesis
    proof (cases "e = ErrDataNodeNotFound")
      case True
      with Some Cons.prems show ?thesis
        by (cases "respond env (tr @ [Ext (ServerJoin n u j) (Some ErrDataNodeNotFound)]) (ServerInitialize n u)")
           (auto simp: Let_def)
    next
      case False
      let ?p = "[Ext (ServerJoin n u j) (Some e),
                 Printf ''join: failed to connect data node: %s: %s'' [AUrl u, AErr e]]"
      from False Some Cons.prems have "joinServerLoop env n u js (tr @ ?p) = (out, tr')"
        by (cases e) auto
      from Cons.IH[OF this] obtain new where
        n: "tr' = (tr @ ?p) @ new" and
        i: "server_ids new = []" and
        m: "length (filter membership_success new) \<le> 1" and
        z: "length (filter is_server_initialize new) \<le> 1" and
        x: "out = None \<longrightarrow> filter membership_success new = [] \<and> filter is_server_initialize new = []" and
        o: "out = None \<or> out = Some Returned \<or> out = Some Fatal"
        by blast
      let ?new = "?p @ new"
      have "tr' = tr @ ?new" using n by simp
      moreover have "server_ids ?new = []" using i by simp
      moreover have "length (filter membership_success ?new) \<le> 1" using m by simp
      moreover have "length (filter is_server_initialize ?new) \<le> 1" using z by simp
      moreover have "out = None \<longrightarrow> filter membership_success ?new = [] \<and> filter is_server_initialize ?new = []"
        using x by simp
      moreover have "j # js = [] \<longrightarrow> ?new = [] \<and> out = None" by simp
      ultimately show ?thesis using o by (intro exI[of _ ?new] conjI)
    qed
  qed
qed

lemma split_at_2:
  "(a # b # new = pre @ x # post) \<longleftrightarrow>
     (pre = [] \<and> x = a \<and> post = b # new) \<or>
     (pre = [a] \<and> x = b \<and> post = new) \<or>
     (\<exists>pre'. pre = a # b # pre' \<and> new = pre' @ x # post)"
  by (auto simp: Cons_eq_append_conv)

lemma joinServerLoop_signal:
  "joinServerLoop env n u js tr = (out, tr') \<Longrightarrow>
   \<exists>new. tr' = tr @ new \<and>
     (\<forall>pre n' u' j post.
        new = pre @ Ext (ServerJoin n' u' j) (Some ErrDataNodeNotFound) # post \<longrightarrow>
        (\<exists>r rest. post = Ext (ServerInitialize n u) r # rest \<and>
           filter is_server_join post = [] \<and>
           out = Some (if r = None then Returned else Fatal) \<and>
           n' = n \<and> u' = u \<and> j \<in> set js))"
proof (induction js arbitrary: tr)
  case Nil
  then show ?case by auto
next
  case (Cons j0 js)
  let ?J = "\<lambda>r. Ext (ServerJoin n u j0) r"
  show ?case
  proof (cases "respond env tr (ServerJoin n u j0)")
    case None
    let ?new = "[?J None, Printf ''join: connected data node to %s'' [AUrl u]]"
    from None Cons.prems have t: "tr' = tr @ ?new" by auto
    show ?thesis
    proof (intro exI[of _ ?new] conjI allI impI)
      show "tr' = tr @ ?new" by fact
    next
      fix pre n' u' j post
      assume "?new = pre @ Ext (ServerJoin n' u' j) (Some ErrDataNodeNotFound) # post"
      then have False unfolding split_at_2 by simp
      then show "\<exists>r rest. post = Ext (ServerInitialize n u) r # rest \<and>
           filter is_server_join post = [] \<and>
           out = Some (if r = None then Returned else Fatal) \<and>
           n' = n \<and> u' = u \<and> j \<in> set (j0 # js)" ..
    qed
  next
    case (Some e)
    show ?thesis
    proof (cases "e = ErrDataNodeNotFound")
      case True
      let ?tr1 = "tr @ [?J (Some ErrDataNodeNotFound)]"
      let ?r = "respond env ?tr1 (ServerInitialize n u)"
      obtain lg where
        t: "tr' = tr @ [?J (Some ErrDataNodeNotFound), Ext (ServerInitialize n u) ?r, lg]" and
        lg: "\<not> is_server_join lg" and
        o: "out = Some (if ?r = None then Returned else Fatal)"
        using True Some Cons.prems by (cases ?r) (auto simp: Let_def)
      let ?new = "[?J (Some ErrDataNodeNotFound), Ext (ServerInitialize n u) ?r, lg]"
      show ?thesis
      proof (intro exI[of _ ?new] conjI allI impI)
        show "tr' = tr @ ?new" by fact
      next
        fix pre n' u' j post
        assume "?new = pre @ Ext (ServerJoin n' u' j) (Some ErrDataNodeNotFound) # post"
        then have "pre = [] \<and> n' = n \<and> u' = u \<and> j = j0 \<and> post = [Ext (ServerInitialize n u) ?r, lg]"
          unfolding split_at_2 using lg by (auto simp: Cons_eq_append_conv)
        with lg o show "\<exists>r rest. post = Ext (ServerInitialize n u) r # rest \<and>
           filter is_server_join post = [] \<and>
           out = Some (if r = None then Returned else Fatal) \<and>
           n' = n \<and> u' = u \<and> j \<in> set (j0 # js)" by simp
      qed
    next
      case False
      let ?P = "Printf ''join: failed to connect data node: %s: %s'' [AUrl u, AErr e]"
      from False Some Cons.prems have "joinServerLoop env n u js (tr @ [?J (Some e), ?P]) = (out, tr')"
        by (cases e) auto
      from Cons.IH[OF this] obtain new where
        n: "tr' = (tr @ [?J (Some e), ?P]) @ new" and
        s: "\<And>pre n' u' j post.
        new = pre @ Ext (ServerJoin n' u' j) (Some ErrDataNodeNotFound) # post \<Longrightarrow>
        (\<exists>r rest. post = Ext (ServerInitialize n u) r # rest \<and>
           filter is_server_join post = [] \<and>
           out = Some (if r = None then Returned else Fatal) \<and>
           n' = n \<and> u' = u \<and> j \<in> set js)"
        by blast
      let ?new = "?J (Some e) # ?P # new"
      show ?thesis
      proof (intro exI[of _ ?new] conjI allI impI)
        show "tr' = tr @ ?new" using n by simp
      next
        fix pre n' u' j post
        assume "?new = pre @ Ext (ServerJoin n' u' j) (Some ErrDataNodeNotFound) # post"
        then obtain pre' where "new = pre' @ Ext (ServerJoin n' u' j) (Some ErrDataNodeNotFound) # post"
          unfolding split_at_2 using False by auto
        from s[OF this] obtain r rest where "post = Ext (ServerInitialize n u) r # rest"
           "filter is_server_join post = []"
           "out = Some (if r = None then Returned else Fatal)"
           "n' = n" "u' = u" "j \<in> set js" by blast
        then show "\<exists>r rest. post = Ext (ServerInitialize n u) r # rest \<and>
           filter is_server_join post = [] \<and>
           out = Some (if r = None then Returned else Fatal) \<and>
           n' = n \<and> u' = u \<and> j \<in> set (j0 # js)" by simp
      qed
    qed
  qed
qed

lemma joinOrInitializeServer_shape:
  assumes "joinOrInitializeServer env n u js tr = (out, tr')"
  shows "\<exists>new. tr' = tr @ new \<and>
     server_ids new = [] \<and>
     length (filter membership_success new) \<le> 1 \<and>
     length (filter is_server_initialize new) \<le> 1 \<and>
     (out = Returned \<or> out = Fatal) \<and>
     (js = [] \<longrightarrow>
        (\<exists>r lg. new = [Ext (ServerInitialize n u) r, lg] \<and>
           \<not> is_server_join lg \<and> \<not> is_server_initialize lg \<and>
           out = (if r = None then Returned else Fatal)))"
proof -
  obtain o1 tr1 where loop: "joinServerLoop env n u js tr = (o1, tr1)" by fastforce
  from joinServerLoop_shape[OF loop] obtain newl where
    n: "tr1 = tr @ newl" and
    i: "server_ids newl = []" and
    m: "length (filter membership_success newl) \<le> 1" and
    z: "length (filter is_server_initialize newl) \<le> 1" and
    x: "o1 = None \<longrightarrow> filter membership_success newl = [] \<and> filter is_server_initialize newl = []" and
    e: "js = [] \<longrightarrow> newl = [] \<and> o1 = None" and
    o: "o1 = None \<or> o1 = Some Returned \<or> o1 = Some Fatal"
    by blast
  show ?thesis
  proof (cases o1)
    case (Some out')
    with assms loop have "out = out'" "tr' = tr1"
      by (simp_all add: joinOrInitializeServer_def)
    with Some n i m z e o show ?thesis by (intro exI[of _ newl]) auto
  next
    case None
    show ?thesis
    proof (cases "js = []")
      case True
      let ?r = "respond env tr (ServerInitialize n u)"
      from True e n have tr1: "tr1 = tr" by simp
      from assms loop None True tr1 obtain lg where
        "tr' = tr @ [Ext (ServerInitialize n u) ?r, lg]"
        "\<not> is_server_join lg" "\<not> is_server_initialize lg" "\<not> membership_success lg"
        "server_ids [lg] = []"
        "out = (if ?r = None then Returned else Fatal)"
        by (cases ?r) (auto simp: joinOrInitializeServer_def Let_def)
      then show ?thesis
        by (intro exI[of _ "[Ext (ServerInitialize n u) ?r, lg]"]) (cases ?r; simp)
    next
      case False
      let ?F = "Fatalf ''join: failed to connect data node to any specified server'' []"
      from assms loop None False n have "out = Fatal" "tr' = tr @ (newl @ [?F])"
        by (simp_all add: joinOrInitializeServer_def)
      with i m z x None False show ?thesis
        by (intro exI[of _ "newl @ [?F]"]) (simp add: server_ids_append)
    qed
  qed
qed

text \<open>The runs of \<open>openServer\<close>, by the place where it ends.\<close>

lemma openServer_runs:
  assumes "openServer net env n s urls tr = (out, n', tr')"
  obtains
    (panic) e where "out = Panicked e" "tr' = tr"
  | (client_failed) e m a where "out = Fatal"
      "tr' = tr @ [Ext (ClientOpen (DataDir (config s))) (Some e), Fatalf m a]"
  | (no_urls) m a where "out = Fatal"
      "tr' = tr @ [Ext (ClientOpen (DataDir (config s))) None, GotClientURLs [], Fatalf m a]"
  | (server_failed) cs e m a where "out = Fatal"
      "tr' = tr @ [Ext (ClientOpen (DataDir (config s))) None, GotClientURLs cs,
                   Ext (ServerOpen n (DataDir (config s))) (Some e), Fatalf m a]"
  | (member) cs i1 m a i2 where "i2 \<noteq> 0" "out = Returned"
      "tr' = tr @ [Ext (ClientOpen (DataDir (config s))) None, GotClientURLs cs,
                   Ext (ServerOpen n (DataDir (config s))) None,
                   GotServerID n i1, Printf m a, Sleep 1, GotServerID n i2,
                   Printf ''data node already member of cluster. Using existing state and ignoring join URLs'' []]"
  | (join) cs i1 m a u pre where "ClusterURL net s = Inr u"
      "pre = tr @ [Ext (ClientOpen (DataDir (config s))) None, GotClientURLs cs,
                   Ext (ServerOpen n (DataDir (config s))) None,
                   GotServerID n i1, Printf m a, Sleep 1, GotServerID n 0]"
      "joinOrInitializeServer env n u urls pre = (out, tr')"
  using assms unfolding openServer_def Let_def
  by (auto split: sum.splits option.splits prod.splits if_splits)

text \<open>
  Claim C3. In a run of \<open>joinOrInitializeServer\<close>, when a \<open>Join\<close> call is answered by
  \<open>ErrDataNodeNotFound\<close>, the very next event is \<open>Initialize\<close> on the same server with the
  local URL \<open>u\<close>, and no \<open>Join\<close> call follows. The run returns when that \<open>Initialize\<close>
  returned \<open>nil\<close> and ends in \<open>log.Fatalf\<close> when it failed: the answer
  \<open>ErrDataNodeNotFound\<close> alone never ends the process.
\<close>

theorem not_found_self_initializes:
  assumes run: "joinOrInitializeServer env n u joinURLs tr = (out, tr @ new)"
      and sig: "new = pre @ Ext (ServerJoin n' u' j) (Some ErrDataNodeNotFound) # post"
  shows "\<exists>r rest. post = Ext (ServerInitialize n u) r # rest \<and>
           filter is_server_join post = [] \<and>
           out = (if r = None then Returned else Fatal) \<and>
           n' = n \<and> u' = u \<and> j \<in> set joinURLs"
proof -
  let ?E = "Ext (ServerJoin n' u' j) (Some ErrDataNodeNotFound)"
  obtain o1 tr1 where loop: "joinServerLoop env n u joinURLs tr = (o1, tr1)" by fastforce
  from joinServerLoop_signal[OF loop] obtain newl where
    n: "tr1 = tr @ newl" and
    s: "\<And>pre n' u' j post.
        newl = pre @ Ext (ServerJoin n' u' j) (Some ErrDataNodeNotFound) # post \<Longrightarrow>
        (\<exists>r rest. post = Ext (ServerInitialize n u) r # rest \<and>
           filter is_server_join post = [] \<and>
           o1 = Some (if r = None then Returned else Fatal) \<and>
           n' = n \<and> u' = u \<and> j \<in> set joinURLs)"
    by blast
  from joinServerLoop_shape[OF loop] n have e: "joinURLs = [] \<longrightarrow> newl = []" by auto
  show ?thesis
  proof (cases o1)
    case (Some out')
    with run loop n have "out = out'" "new = newl"
      by (simp_all add: joinOrInitializeServer_def)
    with s[of pre n' u' j post] sig Some show ?thesis by auto
  next
    case None
    show ?thesis
    proof (cases "joinURLs = []")
      case True
      let ?r = "respond env tr (ServerInitialize n u)"
      from True e n have tr1: "tr1 = tr" by simp
      from run loop None True tr1 obtain lg where
        "new = [Ext (ServerInitialize n u) ?r, lg]" "\<not> is_server_join lg"
        by (cases ?r) (auto simp: joinOrInitializeServer_def Let_def)
      with sig have False by (auto simp: Cons_eq_append_conv)
      then show ?thesis ..
    next
      case False
      let ?F = "Fatalf ''join: failed to connect data node to any specified server'' []"
      from run loop None False n have new: "new = newl @ [?F]"
        by (simp add: joinOrInitializeServer_def)
      have "\<exists>post'. newl = pre @ ?E # post'"
      proof (cases post rule: rev_cases)
        case Nil
        with sig new show ?thesis by simp
      next
        case (snoc post' x)
        with sig new have "newl @ [?F] = (pre @ ?E # post') @ [x]" by simp
        then have "newl = pre @ ?E # post'" by (simp only: append1_eq_conv)
        then show ?thesis by blast
      qed
      then obtain post' where "newl = pre @ ?E # post'" by blast
      from s[OF this] None have False by auto
      then show ?thesis ..
    qed
  qed
qed

theorem not_found_self_initializes_witness:
  "let env = scripted_env [(ServerJoin 2 (seed ''node1:8086'') (seed ''a:1''), OtherError ''refused''),
                   (ServerJoin 2 (seed ''node1:8086'') (seed ''b:1''), ErrDataNodeNotFound)] 0 0 [];
       pre = [Ext (ServerJoin 2 (seed ''node1:8086'') (seed ''a:1'')) (Some (OtherError ''refused'')),
              Printf ''join: failed to connect data node: %s: %s''
                [AUrl (seed ''node1:8086''), AErr (OtherError ''refused'')]];
       post = [Ext (ServerInitialize 2 (seed ''node1:8086'')) None,
              Printf ''initialized data node: %s\<newline>'' [AUrl (seed ''node1:8086'')]];
       new = pre @ Ext (ServerJoin 2 (seed ''node1:8086'') (seed ''b:1'')) (Some ErrDataNodeNotFound) # post
   in joinOrInitializeServer env 2 (seed ''node1:8086'') [seed ''a:1'', seed ''b:1'', seed ''c:1''] []
        = (Returned, [] @ new) \<and>
      (\<exists>r rest. post = Ext (ServerInitialize 2 (seed ''node1:8086'')) r # rest \<and>
         filter is_server_join post = [] \<and>
         Returned = (if r = None then Returned else Fatal))"
proof -
  define env where "env = scripted_env [(ServerJoin 2 (seed ''node1:8086'') (seed ''a:1''), OtherError ''refused''),
                   (ServerJoin 2 (seed ''node1:8086'') (seed ''b:1''), ErrDataNodeNotFound)] 0 0 []"
  define pre where "pre = [Ext (ServerJoin 2 (seed ''node1:8086'') (seed ''a:1'')) (Some (OtherError ''refused'')),
              Printf ''join: failed to connect data node: %s: %s''
                [AUrl (seed ''node1:8086''), AErr (OtherError ''refused'')]]"
  define post where "post = [Ext (ServerInitialize 2 (seed ''node1:8086'')) None,
              Printf ''initialized data node: %s\<newline>'' [AUrl (seed ''node1:8086'')]]"
  define new where "new = pre @ Ext (ServerJoin 2 (seed ''node1:8086'') (seed ''b:1'')) (Some ErrDataNodeNotFound) # post"
  have run: "joinOrInitializeServer env 2 (seed ''node1:8086'') [seed ''a:1'', seed ''b:1'', seed ''c:1''] []
        = (Returned, [] @ new)"
    by (simp add: joinOrInitializeServer_def Let_def scripted_env_def seed_def
        env_def pre_def post_def new_def)
  from not_found_self_initializes[OF run new_def] run
  show ?thesis unfolding Let_def env_def pre_def post_def new_def by blast
qed

section \<open>Which of join and initialize a run performs\<close>

lemma joinLog_calls:
  "joinLog env l us tr = (out, tr') \<Longrightarrow>
   \<exists>new. tr' = tr @ new \<and>
     length (filter membership_success new) \<le> 1 \<and>
     filter is_raft_initialize new = [] \<and>
     log_indexes new = [] \<and>
     (filter is_raft_join new = [] \<longrightarrow> us = [])"
proof (induction us arbitrary: tr)
  case Nil
  then show ?case by auto
next
  case (Cons u us)
  show ?case
  proof (cases "respond env tr (RaftJoin l u)")
    case None
    with Cons.prems show ?thesis by auto
  next
    case (Some e)
    show ?thesis
    proof (cases "e = ErrInitialized")
      case True
      with Some Cons.prems show ?thesis by auto
    next
      case False
      let ?p = "[Ext (RaftJoin l u) (Some e),
                 Printf ''join: failed to connect to raft cluster: %s: %s'' [AUrl u, AErr e]]"
      from False Some Cons.prems have "joinLog env l us (tr @ ?p) = (out, tr')"
        by (cases e) auto
      from Cons.IH[OF this] obtain new where
        "tr' = (tr @ ?p) @ new"
        "length (filter membership_success new) \<le> 1"
        "filter is_raft_initialize new = []"
        "log_indexes new = []"
        by blast
      then show ?thesis by (intro exI[of _ "?p @ new"]) simp
    qed
  qed
qed

lemma openBroker_founds:
  assumes run: "openBroker net env b l s [] h tr = (out, s', h', tr @ new)"
      and idx: "log_indexes new = [0]"
  shows "filter is_raft_join new = [] \<and>
      (\<exists>r. filter is_raft_initialize new = [Ext (RaftInitialize l) r] \<and>
           out = (if r = None then Returned else Fatal))"
  using run
  by (cases rule: openBroker_runs) (use idx in auto)

lemma joinOrInitializeServer_founds:
  assumes run: "joinOrInitializeServer env n u [] tr = (out, tr @ new)"
  shows "filter is_server_join new = [] \<and>
      (\<exists>r. filter is_server_initialize new = [Ext (ServerInitialize n u) r] \<and>
           out = (if r = None then Returned else Fatal))"
  using joinOrInitializeServer_shape[OF run] by auto

lemma openServer_founds:
  assumes run: "openServer net env n s [] tr = (out, n', tr @ new)"
      and ids: "server_ids new \<noteq> []" "last (server_ids new) = 0"
  shows "filter is_server_join new = [] \<and>
      (\<exists>r cu. ClusterURL net s = Inr cu \<and>
           filter is_server_initialize new = [Ext (ServerInitialize n cu) r] \<and>
           out = (if r = None then Returned else Fatal))"
  using run
proof (cases rule: openServer_runs)
  case (join cs i1 m a u pre)
  from joinOrInitializeServer_shape[OF join(3)] obtain r lg where
    "tr @ new = pre @ [Ext (ServerInitialize n u) r, lg]"
    "\<not> is_server_join lg" "\<not> is_server_initialize lg"
    "out = (if r = None then Returned else Fatal)"
    by auto
  with join(1,2) show ?thesis by auto
qed (use ids in auto)

text \<open>
  Claim C4. Log layer: in a run of \<open>openBroker\<close> with no broker URLs that read the log index
  0, no \<open>Join\<close> is called, \<open>Initialize\<close> is called exactly once on the raft log, and the
  run returns if it returned \<open>nil\<close> and ends in \<open>log.Fatalf\<close> if it failed. Data layer: the
  same holds for \<open>joinOrInitializeServer\<close> with no join URLs, and for a run of \<open>openServer\<close>
  with no join URLs in which the identity read last was 0; there \<open>Initialize\<close> is called
  with the node's cluster URL.
\<close>

theorem founding_member_self_initializes:
  "(openBroker net env b l s [] h tr = (out, s', h', tr @ new) \<and> log_indexes new = [0] \<longrightarrow>
      filter is_raft_join new = [] \<and>
      (\<exists>r. filter is_raft_initialize new = [Ext (RaftInitialize l) r] \<and>
           out = (if r = None then Returned else Fatal))) \<and>
   (joinOrInitializeServer env n u [] tr2 = (out2, tr2 @ new2) \<longrightarrow>
      filter is_server_join new2 = [] \<and>
      (\<exists>r. filter is_server_initialize new2 = [Ext (ServerInitialize n u) r] \<and>
           out2 = (if r = None then Returned else Fatal))) \<and>
   (openServer net env n s3 [] tr3 = (out3, n3, tr3 @ new3) \<and>
      server_ids new3 \<noteq> [] \<and> last (server_ids new3) = 0 \<longrightarrow>
      filter is_server_join new3 = [] \<and>
      (\<exists>r cu. ClusterURL net s3 = Inr cu \<and>
           filter is_server_initialize new3 = [Ext (ServerInitialize n cu) r] \<and>
           out3 = (if r = None then Returned else Fatal)))"
  (is "(?A1 \<longrightarrow> ?C1) \<and> (?A2 \<longrightarrow> ?C2) \<and> (?A3 \<longrightarrow> ?C3)")
proof -
  have 1: "?A1 \<longrightarrow> ?C1"
  proof
    assume ?A1
    then have "openBroker net env b l s [] h tr = (out, s', h', tr @ new)" "log_indexes new = [0]"
      by simp_all
    then show ?C1 by (rule openBroker_founds)
  qed
  have 2: "?A2 \<longrightarrow> ?C2"
  proof
    assume ?A2
    then show ?C2 by (rule joinOrInitializeServer_founds)
  qed
  have 3: "?A3 \<longrightarrow> ?C3"
  proof
    assume ?A3
    then have "openServer net env n s3 [] tr3 = (out3, n3, tr3 @ new3)"
      "server_ids new3 \<noteq> []" "last (server_ids new3) = 0"
      by simp_all
    then show ?C3 by (rule openServer_founds)
  qed
  show ?thesis by (rule conjI[OF 1 conjI[OF 2 3]])
qed

theorem founding_member_self_initializes_witness:
  "let new = [Ext (BrokerOpen 1 ''/b'') None,
              Printf ''broker opened at %s'' [AStr ''/b''],
              Ext (RaftLogOpen 3 ''/b'') None,
              GotLastLogIndexTerm 3 0 0,
              Ext (RaftInitialize 3) None,
              GotBrokerURL 1 (seed ''node1:8086''),
              Printf ''initialized broker: %s\<newline>'' [AUrl (seed ''node1:8086'')]];
       new2 = [Ext (ServerInitialize 2 (seed ''node1:8086'')) None,
              Printf ''initialized data node: %s\<newline>'' [AUrl (seed ''node1:8086'')]];
       new3 = [Ext (ClientOpen ''/d'') None,
              GotClientURLs [seed ''a:1''],
              Ext (ServerOpen 2 ''/d'') None,
              GotServerID 2 0,
              Printf ''data node(%d) opened at %s'' [AInt 0, AStr ''/d''],
              Sleep 1,
              GotServerID 2 0,
              Ext (ServerInitialize 2 (seed ''node1:8086'')) None,
              Printf ''initialized data node: %s\<newline>'' [AUrl (seed ''node1:8086'')]]
   in (openBroker sample_net quiet_env 1 3 listening_node [] fresh_handler []
         = (Returned, listening_node\<lparr>Broker := Some 1, raftLog := Some 3\<rparr>, \<lparr>hBroker = Some 1, hLog = Some 3\<rparr>, [] @ new) \<and>
       log_indexes new = [0]) \<and>
      filter is_raft_join new = [] \<and>
      filter is_raft_initialize new = [Ext (RaftInitialize 3) None] \<and>
      joinOrInitializeServer quiet_env 2 (seed ''node1:8086'') [] [] = (Returned, [] @ new2) \<and>
      filter is_server_join new2 = [] \<and>
      filter is_server_initialize new2 = [Ext (ServerInitialize 2 (seed ''node1:8086'')) None] \<and>
      (openServer sample_net quiet_env 2 listening_node [] [] = (Returned, 2, [] @ new3) \<and>
       server_ids new3 \<noteq> [] \<and> last (server_ids new3) = 0) \<and>
      filter is_server_join new3 = [] \<and>
      filter is_server_initialize new3 = [Ext (ServerInitialize 2 (seed ''node1:8086'')) None]"
proof -
  define new where "new = [Ext (BrokerOpen 1 ''/b'') None,
              Printf ''broker opened at %s'' [AStr ''/b''],
              Ext (RaftLogOpen 3 ''/b'') None,
              GotLastLogIndexTerm 3 0 0,
              Ext (RaftInitialize 3) None,
              GotBrokerURL 1 (seed ''node1:8086''),
              Printf ''initialized broker: %s\<newline>'' [AUrl (seed ''node1:8086'')]]"
  define new2 where "new2 = [Ext (ServerInitialize 2 (seed ''node1:8086'')) None,
              Printf ''initialized data node: %s\<newline>'' [AUrl (seed ''node1:8086'')]]"
  define new3 where "new3 = [Ext (ClientOpen ''/d'') None,
              GotClientURLs [seed ''a:1''],
              Ext (ServerOpen 2 ''/d'') None,
              GotServerID 2 0,
              Printf ''data node(%d) opened at %s'' [AInt 0, AStr ''/d''],
              Sleep 1,
              GotServerID 2 0,
              Ext (ServerInitialize 2 (seed ''node1:8086'')) None,
              Printf ''initialized data node: %s\<newline>'' [AUrl (seed ''node1:8086'')]]"
  have h1: "openBroker sample_net quiet_env 1 3 listening_node [] fresh_handler []
         = (Returned, listening_node\<lparr>Broker := Some 1, raftLog := Some 3\<rparr>, \<lparr>hBroker = Some 1, hLog = Some 3\<rparr>, [] @ new) \<and>
       log_indexes new = [0]"
    by (simp add: openBroker_def openServer_def joinOrInitializeServer_def Let_def ClusterURL_def ClusterAddr_def
        sample_net_def split_last_colon_def listening_node_def cluster_listener_def
        scripted_env_def quiet_env_def no_data_nodes_env_def seed_def fresh_handler_def new_def)
  have h2: "joinOrInitializeServer quiet_env 2 (seed ''node1:8086'') [] [] = (Returned, [] @ new2)"
    by (simp add: openBroker_def openServer_def joinOrInitializeServer_def Let_def ClusterURL_def ClusterAddr_def
        sample_net_def split_last_colon_def listening_node_def cluster_listener_def
        scripted_env_def quiet_env_def no_data_nodes_env_def seed_def fresh_handler_def new2_def)
  have h3: "openServer sample_net quiet_env 2 listening_node [] [] = (Returned, 2, [] @ new3) \<and>
       server_ids new3 \<noteq> [] \<and> last (server_ids new3) = 0"
    by (simp add: openBroker_def openServer_def joinOrInitializeServer_def Let_def ClusterURL_def ClusterAddr_def
        sample_net_def split_last_colon_def listening_node_def cluster_listener_def
        scripted_env_def quiet_env_def no_data_nodes_env_def seed_def fresh_handler_def new3_def)
  have "filter is_raft_join new = []"
       "filter is_raft_initialize new = [Ext (RaftInitialize 3) None]"
       "filter is_server_join new2 = []"
       "filter is_server_initialize new2 = [Ext (ServerInitialize 2 (seed ''node1:8086'')) None]"
       "filter is_server_join new3 = []"
       "filter is_server_initialize new3 = [Ext (ServerInitialize 2 (seed ''node1:8086'')) None]"
    using founding_member_self_initializes[of sample_net quiet_env 1 3 listening_node fresh_handler
            "[]" Returned "listening_node\<lparr>Broker := Some 1, raftLog := Some 3\<rparr>" "\<lparr>hBroker = Some 1, hLog = Some 3\<rparr>" new
            2 "seed ''node1:8086''" "[]" Returned new2 listening_node "[]" Returned 2 new3]
          h1 h2 h3
    by (auto simp: new_def new2_def new3_def)
  with h1 h2 h3 show ?thesis unfolding Let_def new_def new2_def new3_def by blast
qed

text \<open>
  Claim C7, as the code has it. Which of join and initialize is performed is not determined
  by the persisted state alone: two runs of \<open>openBroker\<close> that both read the log index 0,
  with the same collaborators, differ in the list of broker URLs, and the one calls
  \<open>Initialize\<close> and the other \<open>Join\<close>. And the data layer can perform both in one run: when
  a peer answers \<open>Join\<close> with \<open>ErrDataNodeNotFound\<close>, \<open>Initialize\<close> follows.
\<close>

theorem path_not_fixed_by_persisted_state:
  "log_indexes (snd (snd (snd founding_run))) = [0] \<and>
   log_indexes (snd (snd (snd joining_run))) = [0] \<and>
   filter is_raft_initialize (snd (snd (snd founding_run))) \<noteq> [] \<and>
   filter is_raft_join (snd (snd (snd founding_run))) = [] \<and>
   filter is_raft_initialize (snd (snd (snd joining_run))) = [] \<and>
   filter is_raft_join (snd (snd (snd joining_run))) \<noteq> [] \<and>
   filter is_server_join (snd (snd first_data_node_run)) \<noteq> [] \<and>
   filter is_server_initialize (snd (snd first_data_node_run)) \<noteq> []"
  by (simp add: founding_run_def joining_run_def first_data_node_run_def
        openBroker_def openServer_def joinOrInitializeServer_def Let_def ClusterURL_def ClusterAddr_def
        sample_net_def split_last_colon_def listening_node_def cluster_listener_def
        scripted_env_def quiet_env_def no_data_nodes_env_def seed_def fresh_handler_def)

lemma openBroker_path:
  assumes run: "openBroker net env b l s brokerURLs h tr = (out, s', h', tr @ new)"
  shows "length (log_indexes new) \<le> 1 \<and>
      (filter is_raft_join new = [] \<or> filter is_raft_initialize new = []) \<and>
      length (filter membership_success new) \<le> 1 \<and>
      (log_indexes new \<noteq> [0] \<longrightarrow>
         filter is_raft_join new = [] \<and> filter is_raft_initialize new = []) \<and>
      (log_indexes new = [0] \<longrightarrow>
         (filter is_raft_join new = [] \<longleftrightarrow> brokerURLs = []) \<and>
         (filter is_raft_initialize new = [] \<longleftrightarrow> brokerURLs \<noteq> []))"
  using run
proof (cases rule: openBroker_runs)
  case (join t m a pre)
  from joinLog_calls[OF join(3)] obtain newj where
    "tr @ new = pre @ newj"
    "length (filter membership_success newj) \<le> 1"
    "filter is_raft_initialize newj = []"
    "log_indexes newj = []"
    "filter is_raft_join newj = [] \<longrightarrow> brokerURLs = []"
    by blast
  with join(1,2) show ?thesis by auto
qed auto

lemma openServer_path:
  assumes run: "openServer net env n s joinURLs tr = (out, n', tr @ new)"
  shows "length (server_ids new) \<le> 2 \<and>
      length (filter membership_success new) \<le> 1 \<and>
      length (filter is_server_initialize new) \<le> 1 \<and>
      (server_ids new = [] \<or> last (server_ids new) \<noteq> 0 \<longrightarrow>
         filter is_server_join new = [] \<and> filter is_server_initialize new = []) \<and>
      (joinURLs = [] \<longrightarrow> filter is_server_join new = [])"
  using run
proof (cases rule: openServer_runs)
  case (join cs i1 m a u pre)
  from joinOrInitializeServer_shape[OF join(3)] obtain newj where
    "tr @ new = pre @ newj"
    "server_ids newj = []"
    "length (filter membership_success newj) \<le> 1"
    "length (filter is_server_initialize newj) \<le> 1"
    "joinURLs = [] \<longrightarrow> filter is_server_join newj = []"
    by auto
  with join(1,2) show ?thesis by auto
qed auto

text \<open>
  Claim C7, amended. Log layer, in every run of \<open>openBroker\<close>: the log index is read at
  most once; \<open>Join\<close> and \<open>Initialize\<close> are never both called, and at most one such call
  returns \<open>nil\<close>; unless the index read is 0, neither is called; when it is 0, \<open>Join\<close> is
  called exactly when the list of broker URLs is non-empty and \<open>Initialize\<close> exactly when
  it is empty. Data layer, in every run of \<open>openServer\<close>: the identity is read at most
  twice (for the log line and for the decision) and not again while joining; at most one
  \<open>Join\<close> or \<open>Initialize\<close> call returns \<open>nil\<close>, and \<open>Initialize\<close> is called at most once;
  unless the identity read last is 0, neither is called; with no join URLs, \<open>Join\<close> is not
  called.
\<close>

theorem membership_path:
  "(openBroker net env b l s brokerURLs h tr = (out, s', h', tr @ new) \<longrightarrow>
      length (log_indexes new) \<le> 1 \<and>
      (filter is_raft_join new = [] \<or> filter is_raft_initialize new = []) \<and>
      length (filter membership_success new) \<le> 1 \<and>
      (log_indexes new \<noteq> [0] \<longrightarrow>
         filter is_raft_join new = [] \<and> filter is_raft_initialize new = []) \<and>
      (log_indexes new = [0] \<longrightarrow>
         (filter is_raft_join new = [] \<longleftrightarrow> brokerURLs = []) \<and>
         (filter is_raft_initialize new = [] \<longleftrightarrow> brokerURLs \<noteq> []))) \<and>
   (openServer net2 env2 n s2 joinURLs tr2 = (out2, n2, tr2 @ new2) \<longrightarrow>
      length (server_ids new2) \<le> 2 \<and>
      length (filter membership_success new2) \<le> 1 \<and>
      length (filter is_server_initialize new2) \<le> 1 \<and>
      (server_ids new2 = [] \<or> last (server_ids new2) \<noteq> 0 \<longrightarrow>
         filter is_server_join new2 = [] \<and> filter is_server_initialize new2 = []) \<and>
      (joinURLs = [] \<longrightarrow> filter is_server_join new2 = []))"
  (is "(?A1 \<longrightarrow> ?C1) \<and> (?A2 \<longrightarrow> ?C2)")
proof -
  have 1: "?A1 \<longrightarrow> ?C1"
  proof
    assume ?A1
    then show ?C1 by (rule openBroker_path)
  qed
  have 2: "?A2 \<longrightarrow> ?C2"
  proof
    assume ?A2
    then show ?C2 by (rule openServer_path)
  qed
  show ?thesis by (rule conjI[OF 1 2])
qed

theorem membership_path_witness:
  "let newj = [Ext (BrokerOpen 1 ''/b'') None,
              Printf ''broker opened at %s'' [AStr ''/b''],
              Ext (RaftLogOpen 3 ''/b'') None,
              GotLastLogIndexTerm 3 0 0,
              Ext (RaftJoin 3 (seed ''a:1'')) None,
              Printf ''join: connected raft log to %s'' [AUrl (seed ''a:1'')]];
       newm = [Ext (BrokerOpen 1 ''/b'') None,
              Printf ''broker opened at %s'' [AStr ''/b''],
              Ext (RaftLogOpen 3 ''/b'') None,
              GotLastLogIndexTerm 3 7 0,
              Printf ''broker already member of cluster.  Using existing state and ignoring join URLs'' []];
       news = [Ext (ClientOpen ''/d'') None,
              GotClientURLs [seed ''a:1''],
              Ext (ServerOpen 2 ''/d'') None,
              GotServerID 2 0,
              Printf ''data node(%d) opened at %s'' [AInt 0, AStr ''/d''],
              Sleep 1,
              GotServerID 2 0,
              Ext (ServerInitialize 2 (seed ''node1:8086'')) None,
              Printf ''initialized data node: %s\<newline>'' [AUrl (seed ''node1:8086'')]];
       newt = [Ext (ClientOpen ''/d'') None,
              GotClientURLs [seed ''a:1''],
              Ext (ServerOpen 2 ''/d'') None,
              GotServerID 2 5,
              Printf ''data node(%d) opened at %s'' [AInt 5, AStr ''/d''],
              Sleep 1,
              GotServerID 2 5,
              Printf ''data node already member of cluster. Using existing state and ignoring join URLs'' []]
   in openBroker sample_net quiet_env 1 3 listening_node [seed ''a:1''] fresh_handler []
        = (Returned, listening_node\<lparr>Broker := Some 1, raftLog := Some 3\<rparr>, \<lparr>hBroker = Some 1, hLog = Some 3\<rparr>, [] @ newj) \<and>
      log_indexes newj = [0] \<and> [seed ''a:1''] \<noteq> [] \<and>
      filter is_raft_initialize newj = [] \<and> filter is_raft_join newj \<noteq> [] \<and>
      openBroker sample_net (scripted_env [] 7 0 []) 1 3 listening_node [seed ''a:1''] fresh_handler []
        = (Returned, listening_node\<lparr>Broker := Some 1, raftLog := Some 3\<rparr>, \<lparr>hBroker = Some 1, hLog = Some 3\<rparr>, [] @ newm) \<and>
      log_indexes newm \<noteq> [0] \<and>
      filter is_raft_join newm = [] \<and> filter is_raft_initialize newm = [] \<and>
      openServer sample_net quiet_env 2 listening_node [] [] = (Returned, 2, [] @ news) \<and>
      filter is_server_join news = [] \<and> length (filter membership_success news) \<le> 1 \<and>
      openServer sample_net (scripted_env [] 0 5 [seed ''a:1'']) 2 listening_node [seed ''a:1''] []
        = (Returned, 2, [] @ newt) \<and>
      last (server_ids newt) \<noteq> 0 \<and>
      filter is_server_join newt = [] \<and> filter is_server_initialize newt = []"
proof -
  define newj where "newj = [Ext (BrokerOpen 1 ''/b'') None,
              Printf ''broker opened at %s'' [AStr ''/b''],
              Ext (RaftLogOpen 3 ''/b'') None,
              GotLastLogIndexTerm 3 0 0,
              Ext (RaftJoin 3 (seed ''a:1'')) None,
              Printf ''join: connected raft log to %s'' [AUrl (seed ''a:1'')]]"
  define newm where "newm = [Ext (BrokerOpen 1 ''/b'') None,
              Printf ''broker opened at %s'' [AStr ''/b''],
              Ext (RaftLogOpen 3 ''/b'') None,
              GotLastLogIndexTerm 3 7 0,
              Printf ''broker already member of cluster.  Using existing state and ignoring join URLs'' []]"
  define news where "news = [Ext (ClientOpen ''/d'') None,
              GotClientURLs [seed ''a:1''],
              Ext (ServerOpen 2 ''/d'') None,
              GotServerID 2 0,
              Printf ''data node(%d) opened at %s'' [AInt 0, AStr ''/d''],
              Sleep 1,
              GotServerID 2 0,
              Ext (ServerInitialize 2 (seed ''node1:8086'')) None,
              Printf ''initialized data node: %s\<newline>'' [AUrl (seed ''node1:8086'')]]"
  define newt where "newt = [Ext (ClientOpen ''/d'') None,
              GotClientURLs [seed ''a:1''],
              Ext (ServerOpen 2 ''/d'') None,
              GotServerID 2 5,
              Printf ''data node(%d) opened at %s'' [AInt 5, AStr ''/d''],
              Sleep 1,
              GotServerID 2 5,
              Printf ''data node already member of cluster. Using existing state and ignoring join URLs'' []]"
  have h1: "openBroker sample_net quiet_env 1 3 listening_node [seed ''a:1''] fresh_handler []
        = (Returned, listening_node\<lparr>Broker := Some 1, raftLog := Some 3\<rparr>, \<lparr>hBroker = Some 1, hLog = Some 3\<rparr>, [] @ newj)"
    by (simp add: openBroker_def openServer_def joinOrInitializeServer_def Let_def ClusterURL_def ClusterAddr_def
        sample_net_def split_last_colon_def listening_node_def cluster_listener_def
        scripted_env_def quiet_env_def no_data_nodes_env_def seed_def fresh_handler_def newj_def)
  have i1: "log_indexes newj = [0]" by (simp add: newj_def)
  have h2: "openBroker sample_net (scripted_env [] 7 0 []) 1 3 listening_node [seed ''a:1''] fresh_handler []
        = (Returned, listening_node\<lparr>Broker := Some 1, raftLog := Some 3\<rparr>, \<lparr>hBroker = Some 1, hLog = Some 3\<rparr>, [] @ newm)"
    by (simp add: openBroker_def openServer_def joinOrInitializeServer_def Let_def ClusterURL_def ClusterAddr_def
        sample_net_def split_last_colon_def listening_node_def cluster_listener_def
        scripted_env_def quiet_env_def no_data_nodes_env_def seed_def fresh_handler_def newm_def)
  have i2: "log_indexes newm \<noteq> [0]" by (simp add: newm_def)
  have h3: "openServer sample_net quiet_env 2 listening_node [] [] = (Returned, 2, [] @ news)"
    by (simp add: openBroker_def openServer_def joinOrInitializeServer_def Let_def ClusterURL_def ClusterAddr_def
        sample_net_def split_last_colon_def listening_node_def cluster_listener_def
        scripted_env_def quiet_env_def no_data_nodes_env_def seed_def fresh_handler_def news_def)
  have h4: "openServer sample_net (scripted_env [] 0 5 [seed ''a:1'']) 2 listening_node [seed ''a:1''] []
        = (Returned, 2, [] @ newt)"
    by (simp add: openBroker_def openServer_def joinOrInitializeServer_def Let_def ClusterURL_def ClusterAddr_def
        sample_net_def split_last_colon_def listening_node_def cluster_listener_def
        scripted_env_def quiet_env_def no_data_nodes_env_def seed_def fresh_handler_def newt_def)
  have i4: "last (server_ids newt) \<noteq> 0" by (simp add: newt_def)
  have a: "filter is_raft_initialize newj = []" "filter is_raft_join newj \<noteq> []"
          "filter is_server_join news = []" "length (filter membership_success news) \<le> 1"
    using membership_path[of sample_net quiet_env 1 3 listening_node "[seed ''a:1'']" fresh_handler
            "[]" Returned "listening_node\<lparr>Broker := Some 1, raftLog := Some 3\<rparr>" "\<lparr>hBroker = Some 1, hLog = Some 3\<rparr>" newj
            sample_net quiet_env 2 listening_node "[]" "[]" Returned 2 news]
          h1 i1 h3
    by auto
  have b: "filter is_raft_join newm = []" "filter is_raft_initialize newm = []"
          "filter is_server_join newt = []" "filter is_server_initialize newt = []"
    using membership_path[of sample_net "scripted_env [] 7 0 []" 1 3 listening_node "[seed ''a:1'']"
            fresh_handler "[]" Returned "listening_node\<lparr>Broker := Some 1, raftLog := Some 3\<rparr>" "\<lparr>hBroker = Some 1, hLog = Some 3\<rparr>" newm
            sample_net "scripted_env [] 0 5 [seed ''a:1'']" 2 listening_node "[seed ''a:1'']" "[]" Returned 2 newt]
          h2 i2 h4 i4
    by auto
  from a b h1 i1 h2 i2 h3 h4 i4 show ?thesis
    unfolding Let_def newj_def newm_def news_def newt_def by blast
qed

section \<open>The cluster URL\<close>

text \<open>
  Claim C8. On a node whose cluster listener is open, \<open>ClusterURL\<close> splits the address the
  listener is bound to; the URL it returns has the scheme http and as host the node's
  hostname joined with the port of that address. The node's configuration plays no part.
  When the address does not split, \<open>ClusterURL\<close> panics with the error of the split, and
  \<open>openBroker\<close> and \<open>openServer\<close> end with that panic before they make any call: nothing is
  tried again.
\<close>

theorem ClusterURL_uses_bound_port:
  assumes "clusterListener s = Some lst"
  shows "ClusterURL net s =
           (case SplitHostPort net (laddr lst) of
              Inl e \<Rightarrow> Inl e
            | Inr (hst, p) \<Rightarrow> Inr \<lparr>Scheme = ''http'', Host = JoinHostPort net (hostname s) p\<rparr>) \<and>
         ClusterURL net (s\<lparr>config := c\<rparr>) = ClusterURL net s \<and>
         (\<forall>e. ClusterURL net s = Inl e \<longrightarrow>
            openBroker net env b l s brokerURLs h tr = (Panicked e, s, h, tr) \<and>
            openServer net env n s joinURLs tr = (Panicked e, n, tr))"
  using assms
  by (auto simp: ClusterURL_def ClusterAddr_def openBroker_def openServer_def Let_def
      split: sum.splits prod.splits)

theorem ClusterURL_uses_bound_port_witness:
  "clusterListener listening_node = Some cluster_listener \<and>
   ClusterURL sample_net listening_node = Inr \<lparr>Scheme = ''http'', Host = ''node1:8086''\<rparr> \<and>
   clusterListener (listening_node\<lparr>clusterListener := Some \<lparr>lid = 5, laddr = ''nowhere''\<rparr>\<rparr>)
     = Some \<lparr>lid = 5, laddr = ''nowhere''\<rparr> \<and>
   ClusterURL sample_net (listening_node\<lparr>clusterListener := Some \<lparr>lid = 5, laddr = ''nowhere''\<rparr>\<rparr>)
     = Inl (OtherError ''missing port in address'') \<and>
   openBroker sample_net quiet_env 1 3
       (listening_node\<lparr>clusterListener := Some \<lparr>lid = 5, laddr = ''nowhere''\<rparr>\<rparr>)
       [seed ''a:1''] fresh_handler []
     = (Panicked (OtherError ''missing port in address''),
        listening_node\<lparr>clusterListener := Some \<lparr>lid = 5, laddr = ''nowhere''\<rparr>\<rparr>,
        fresh_handler, [])"
proof -
  let ?bad = "listening_node\<lparr>clusterListener := Some \<lparr>lid = 5, laddr = ''nowhere''\<rparr>\<rparr>"
  have h1: "clusterListener listening_node = Some cluster_listener"
    by (simp add: listening_node_def)
  have h2: "clusterListener ?bad = Some \<lparr>lid = 5, laddr = ''nowhere''\<rparr>"
    by simp
  have a: "ClusterURL sample_net listening_node = Inr \<lparr>Scheme = ''http'', Host = ''node1:8086''\<rparr>"
    using ClusterURL_uses_bound_port[OF h1, of sample_net]
    by (simp add: sample_net_def split_last_colon_def cluster_listener_def listening_node_def)
  have b: "ClusterURL sample_net ?bad = Inl (OtherError ''missing port in address'')"
    using ClusterURL_uses_bound_port[OF h2, of sample_net]
    by (simp add: sample_net_def split_last_colon_def)
  from ClusterURL_uses_bound_port[OF h2, of sample_net] b
  have "openBroker sample_net quiet_env 1 3 ?bad [seed ''a:1''] fresh_handler []
     = (Panicked (OtherError ''missing port in address''), ?bad, fresh_handler, [])"
    by blast
  with h1 h2 a b show ?thesis by blast
qed

end
